theory Spec2Isabelle
  imports Main "HOL-Library.Sublist"
begin

section \<open>JavaScript strings\<close>

text \<open>
  Strings are lists of characters. A character stands for one code unit in the range
  0..255 (Latin-1); the predicates below are the JavaScript classes restricted to that
  range.
\<close>

definition isSpace :: "char \<Rightarrow> bool" where
  \<comment> \<open>the regular-expression class \<open>\s\<close> and the characters removed by \<open>trim()\<close>:
      TAB, LF, VT, FF, CR, SPACE, NBSP\<close>
  "isSpace c = (c \<in> {CHR 0x09, CHR 0x0A, CHR 0x0B, CHR 0x0C, CHR 0x0D, CHR 0x20, CHR 0xA0})"

definition isLineTerm :: "char \<Rightarrow> bool" where
  \<comment> \<open>line terminators, where \<open>^\<close> and \<open>$\<close> match under the \<open>m\<close> flag: LF and CR\<close>
  "isLineTerm c = (c = CHR 0x0A \<or> c = CHR 0x0D)"

definition isDigit :: "char \<Rightarrow> bool" where
  "isDigit c = (let n = (of_char c :: nat) in 48 \<le> n \<and> n \<le> 57)"

definition isUpper :: "char \<Rightarrow> bool" where
  "isUpper c = (let n = (of_char c :: nat) in 65 \<le> n \<and> n \<le> 90)"

definition isLower :: "char \<Rightarrow> bool" where
  "isLower c = (let n = (of_char c :: nat) in 97 \<le> n \<and> n \<le> 122)"

definition isAlpha :: "char \<Rightarrow> bool" where
  "isAlpha c = (isUpper c \<or> isLower c)"

definition isAlnum :: "char \<Rightarrow> bool" where
  "isAlnum c = (isAlpha c \<or> isDigit c)"

definition toLowerChar :: "char \<Rightarrow> char" where
  \<comment> \<open>\<open>toLowerCase\<close> on one code unit: A-Z, and the Latin-1 capitals 0xC0-0xDE except 0xD7\<close>
  "toLowerChar c =
     (let n = (of_char c :: nat)
      in if (65 \<le> n \<and> n \<le> 90) \<or> (192 \<le> n \<and> n \<le> 222 \<and> n \<noteq> 215)
         then char_of (n + 32) else c)"

definition toLowerCase :: "string \<Rightarrow> string" where
  "toLowerCase s = map toLowerChar s"

fun includesStr :: "string \<Rightarrow> string \<Rightarrow> bool" where
  \<comment> \<open>\<open>s.includes(sub)\<close>\<close>
  "includesStr [] sub = (sub = [])"
| "includesStr (c # cs) sub = (prefix sub (c # cs) \<or> includesStr cs sub)"

fun splitChar :: "char \<Rightarrow> string \<Rightarrow> string list" where
  \<comment> \<open>\<open>s.split(x)\<close> for a one-character separator; the result is never empty\<close>
  "splitChar x [] = [[]]"
| "splitChar x (c # cs) =
     (let r = splitChar x cs in if c = x then [] # r else (c # hd r) # tl r)"

fun join :: "string \<Rightarrow> string list \<Rightarrow> string" where
  \<comment> \<open>\<open>xs.join(sep)\<close>\<close>
  "join sep [] = []"
| "join sep [l] = l"
| "join sep (l # ls) = l @ sep @ join sep ls"

fun splitOnFirst :: "string \<Rightarrow> string \<Rightarrow> (string \<times> string) option" where
  \<comment> \<open>the text before and the text after the first occurrence of \<open>sub\<close>\<close>
  "splitOnFirst sub [] = (if sub = [] then Some ([], []) else None)"
| "splitOnFirst sub (c # cs) =
     (if prefix sub (c # cs) then Some ([], drop (length sub) (c # cs))
      else map_option (\<lambda>(a, b). (c # a, b)) (splitOnFirst sub cs))"

fun afterFirst :: "char \<Rightarrow> string \<Rightarrow> string option" where
  \<comment> \<open>the text after the first occurrence of a character\<close>
  "afterFirst x [] = None"
| "afterFirst x (c # cs) = (if c = x then Some cs else afterFirst x cs)"

fun firstSome :: "('a \<Rightarrow> 'b option) \<Rightarrow> 'a list \<Rightarrow> 'b option" where
  \<comment> \<open>the first alternative that succeeds, in the order the matcher tries them\<close>
  "firstSome f [] = None"
| "firstSome f (x # xs) = (case f x of Some y \<Rightarrow> Some y | None \<Rightarrow> firstSome f xs)"

definition trimStart :: "string \<Rightarrow> string" where
  "trimStart s = dropWhile isSpace s"

definition trimEnd :: "string \<Rightarrow> string" where
  "trimEnd s = rev (dropWhile isSpace (rev s))"

definition trim :: "string \<Rightarrow> string" where
  "trim s = trimEnd (trimStart s)"

section \<open>Node's path module (POSIX)\<close>

definition stripTrailingSlashes :: "string \<Rightarrow> string" where
  "stripTrailingSlashes p = rev (dropWhile (\<lambda>c. c = CHR ''/'') (rev p))"

definition basename :: "string \<Rightarrow> string" where
  \<comment> \<open>\<open>path.basename(p)\<close>: the last component, trailing slashes ignored\<close>
  "basename p = rev (takeWhile (\<lambda>c. c \<noteq> CHR ''/'') (rev (stripTrailingSlashes p)))"

definition extname :: "string \<Rightarrow> string" where
  \<comment> \<open>\<open>path.extname(p)\<close>: from the last dot of the last component to its end; empty when
      there is no dot, when the only dot is the first character, or for \<open>..\<close>\<close>
  "extname p =
     (let base = basename p
      in if CHR ''.'' \<notin> set base then []
         else let ext = CHR ''.'' # rev (takeWhile (\<lambda>c. c \<noteq> CHR ''.'') (rev base));
                  stem = take (length base - length ext) base
              in if stem = [] \<or> base = ''..'' then [] else ext)"

fun normalizeString :: "bool \<Rightarrow> string list \<Rightarrow> string list \<Rightarrow> string list" where
  \<comment> \<open>Node's \<open>normalizeString\<close> on path segments: empty segments and \<open>.\<close> vanish, \<open>..\<close>
      removes the segment before it, or is kept at the front when going above the start
      is allowed; the accumulator holds the result so far, last segment first\<close>
  "normalizeString allowAbove acc [] = rev acc"
| "normalizeString allowAbove acc (seg # segs) =
     (if seg = [] \<or> seg = ''.'' then normalizeString allowAbove acc segs
      else if seg = ''..''
      then (case acc of
              [] \<Rightarrow> normalizeString allowAbove (if allowAbove then [''..''] else []) segs
            | a # acc' \<Rightarrow>
                if a = ''..'' then normalizeString allowAbove (seg # acc) segs
                else normalizeString allowAbove acc' segs)
      else normalizeString allowAbove (seg # acc) segs)"

definition isAbsolute :: "string \<Rightarrow> bool" where
  "isAbsolute p = (case p of [] \<Rightarrow> False | c # _ \<Rightarrow> c = CHR ''/'')"

definition normalize :: "string \<Rightarrow> string" where
  \<comment> \<open>\<open>path.normalize(p)\<close>\<close>
  "normalize p =
     (if p = [] then ''.''
      else let rooted = isAbsolute p;
               trailing = (last p = CHR ''/'');
               body = join ''/'' (normalizeString (\<not> rooted) [] (splitChar (CHR ''/'') p))
           in if body = [] then (if rooted then ''/'' else if trailing then ''./'' else ''.'')
              else (if rooted then ''/'' else []) @ body @ (if trailing then ''/'' else []))"

definition joinPath :: "string list \<Rightarrow> string" where
  \<comment> \<open>\<open>path.join(...)\<close>: empty arguments are skipped, the rest joined and normalized\<close>
  "joinPath args =
     (let joined = join ''/'' (filter (\<lambda>a. a \<noteq> []) args)
      in if joined = [] then ''.'' else normalize joined)"

fun resolveFrom :: "string \<Rightarrow> string list \<Rightarrow> string" where
  \<comment> \<open>the right-to-left loop of \<open>path.resolve\<close>, over the arguments last first, the current
      directory after them\<close>
  "resolveFrom acc [] = acc"
| "resolveFrom acc (a # as) =
     (if isAbsolute acc then acc
      else if a = [] then resolveFrom acc as
      else resolveFrom (a @ ''/'' @ acc) as)"

definition resolve :: "string \<Rightarrow> string list \<Rightarrow> string" where
  \<comment> \<open>\<open>path.resolve(...)\<close> in the working directory \<open>cwd\<close>, an absolute path\<close>
  "resolve cwd args =
     (let full = resolveFrom [] (rev args @ [cwd]);
          body = join ''/'' (normalizeString (\<not> isAbsolute full) []
                   (splitChar (CHR ''/'') full))
      in if isAbsolute full then ''/'' @ body else if body = [] then ''.'' else body)"

fun dropCommon :: "string list \<Rightarrow> string list \<Rightarrow> string list \<times> string list" where
  "dropCommon (a # as) (b # bs) = (if a = b then dropCommon as bs else (a # as, b # bs))"
| "dropCommon as bs = (as, bs)"

definition relative :: "string \<Rightarrow> string \<Rightarrow> string \<Rightarrow> string" where
  \<comment> \<open>\<open>path.relative(from, to)\<close>: both resolved, the common leading segments dropped, one
      \<open>..\<close> for each segment left of \<open>from\<close>, then the segments left of \<open>to\<close>\<close>
  "relative cwd from to =
     (if from = to then []
      else let f = resolve cwd [from]; t = resolve cwd [to]
           in if f = t then []
              else let segs = (\<lambda>q. filter (\<lambda>x. x \<noteq> []) (splitChar (CHR ''/'') q));
                       (fs, ts) = dropCommon (segs f) (segs t)
                   in join ''/'' (map (\<lambda>_. ''..'') fs @ ts))"

definition dirname :: "string \<Rightarrow> string" where
  \<comment> \<open>\<open>path.dirname(p)\<close>: what precedes the slash before the last component; the first
      character is never taken for that slash\<close>
  "dirname p =
     (if p = [] then ''.''
      else let hasRoot = isAbsolute p;
               t = tl p;
               body = rev (dropWhile (\<lambda>c. c = CHR ''/'') (rev t));
               front = rev (dropWhile (\<lambda>c. c \<noteq> CHR ''/'') (rev body))
           in if front = [] then (if hasRoot then ''/'' else ''.'')
              else if hasRoot \<and> length front = 1 then ''//''
              else hd p # butlast front)"

section \<open>sanitizeMDXContent\<close>

text \<open>
  The sanitizer is a chain of \<open>String.prototype.replace\<close> calls. Each regular expression
  is modelled by a matcher that, at a position of the input, returns what the expression
  matches there (as the rest of the input after the match), and by a scan that applies
  the matcher from left to right as a global replace does: on a match the replacement is
  emitted and the scan goes on after the match, otherwise one character is copied.
\<close>

definition LF :: char where
  "LF = CHR 0x0A"

lemma afterFirst_length: "afterFirst x s = Some r \<Longrightarrow> length r < length s"
  by (induction s) (auto split: if_splits)

definition doctypeMatch :: "string \<Rightarrow> string option" where
  \<comment> \<open>\<open>/<!DOCTYPE[^>]*>/\<close>: the literal, then everything up to the first \<open>>\<close>\<close>
  "doctypeMatch s = (if prefix ''<!DOCTYPE'' s then afterFirst (CHR ''>'') (drop 9 s) else None)"

function stripDoctype :: "string \<Rightarrow> string" where
  \<comment> \<open>\<open>.replace(/<!DOCTYPE[^>]*>/g, '')\<close>\<close>
  "stripDoctype [] = []"
| "stripDoctype (c # cs) =
     (case doctypeMatch (c # cs) of
        Some rest \<Rightarrow> stripDoctype rest
      | None \<Rightarrow> c # stripDoctype cs)"
  by pat_completeness auto

lemma doctypeMatch_length: "doctypeMatch s = Some r \<Longrightarrow> length r < length s"
  unfolding doctypeMatch_def by (auto split: if_splits dest!: afterFirst_length)

termination stripDoctype
  by (relation "measure length") (auto dest!: doctypeMatch_length)

definition brMatch :: "string \<Rightarrow> string option" where
  \<comment> \<open>\<open>/<br\s*\/?>/\<close>: \<open><br\<close>, the whole run of white space, one optional slash, then
      \<open>>\<close>. Neither a shorter run nor leaving the slash out can reach \<open>>\<close>, so backtracking
      finds nothing more.\<close>
  "brMatch s =
     (if prefix ''<br'' s
      then (let r = dropWhile isSpace (drop 3 s);
                r' = (case r of [] \<Rightarrow> r | c # t \<Rightarrow> if c = CHR ''/'' then t else r)
            in case r' of [] \<Rightarrow> None | c # t \<Rightarrow> if c = CHR ''>'' then Some t else None)
      else None)"

lemma brMatch_length: "brMatch s = Some r \<Longrightarrow> length r < length s"
proof -
  assume a: "brMatch s = Some r"
  have d: "length (dropWhile isSpace (drop 3 s)) \<le> length s"
    by (rule le_trans [OF length_dropWhile_le]) simp
  from a show ?thesis
    unfolding brMatch_def Let_def using d
    by (auto split: if_splits list.splits)
qed

function normalizeBr :: "string \<Rightarrow> string" where
  \<comment> \<open>\<open>.replace(/<br\s*\/?>/g, '<br/>')\<close>\<close>
  "normalizeBr [] = []"
| "normalizeBr (c # cs) =
     (case brMatch (c # cs) of
        Some rest \<Rightarrow> ''<br/>'' @ normalizeBr rest
      | None \<Rightarrow> c # normalizeBr cs)"
  by pat_completeness auto

termination normalizeBr
  by (relation "measure length") (auto dest!: brMatch_length)

definition tagMatch :: "string \<Rightarrow> (string \<times> string \<times> string) option" where
  \<comment> \<open>\<open>/<([a-zA-Z][a-zA-Z0-9]*)\s*(?![^>]*\/>)[^>]*>/\<close>: the match, the group and the rest.
      The match runs from \<open><\<close> and a letter to the first \<open>>\<close>. The look-ahead is
      tried after the name and the white space, all of them characters other than \<open>/\<close>
      and \<open>>\<close>, so wherever it is tried it rejects exactly when the character before that
      first \<open>>\<close> is a slash; the group is therefore always the longest name.\<close>
  "tagMatch s =
     (case s of
        c # d # t \<Rightarrow>
          if c = CHR ''<'' \<and> isAlpha d
          then (case afterFirst (CHR ''>'') (d # t) of
                  None \<Rightarrow> None
                | Some rest \<Rightarrow>
                    let body = takeWhile (\<lambda>x. x \<noteq> CHR ''>'') (d # t)
                    in if last body = CHR ''/'' then None
                       else Some (c # body @ ''>'', takeWhile isAlnum (d # t), rest))
          else None
      | _ \<Rightarrow> None)"

lemma tagMatch_length: "tagMatch s = Some (m, tag, r) \<Longrightarrow> length r < length s"
  unfolding tagMatch_def Let_def
  by (auto split: list.splits if_splits option.splits dest!: afterFirst_length)

function closeTags :: "string \<Rightarrow> string" where
  \<comment> \<open>the third \<open>replace\<close>: a tag without a slash anywhere gets a closing tag appended\<close>
  "closeTags [] = []"
| "closeTags (c # cs) =
     (case tagMatch (c # cs) of
        Some (m, tag, rest) \<Rightarrow>
          (if CHR ''/'' \<in> set m then m else m @ ''</'' @ tag @ ''>'') @ closeTags rest
      | None \<Rightarrow> c # closeTags cs)"
  by pat_completeness auto

termination closeTags
  by (relation "measure length") (auto dest!: tagMatch_length)

definition numberedMatch :: "string \<Rightarrow> (string \<times> string) option" where
  \<comment> \<open>\<open>/\{([^}]*[0-9]+[^}]*)\}/\<close>: the group and the rest. The group holds no \<open>}\<close>, so
      it is the text between \<open>{\<close> and the first \<open>}\<close>, which must contain a digit.\<close>
  "numberedMatch s =
     (case s of
        [] \<Rightarrow> None
      | c # cs \<Rightarrow>
          if c = CHR ''{''
          then (case afterFirst (CHR ''}'') cs of
                  None \<Rightarrow> None
                | Some rest \<Rightarrow>
                    let body = takeWhile (\<lambda>x. x \<noteq> CHR ''}'') cs
                    in if \<exists>x \<in> set body. isDigit x then Some (body, rest) else None)
          else None)"

lemma numberedMatch_length: "numberedMatch s = Some (b, r) \<Longrightarrow> length r < length s"
  unfolding numberedMatch_def Let_def
  by (auto split: list.splits if_splits option.splits dest!: afterFirst_length)

function commentNumbered :: "string \<Rightarrow> string" where
  \<comment> \<open>the fourth \<open>replace\<close>: an expression holding a digit becomes \<open>{/* ... */}\<close>\<close>
  "commentNumbered [] = []"
| "commentNumbered (c # cs) =
     (case numberedMatch (c # cs) of
        Some (body, rest) \<Rightarrow> ''{/* '' @ body @ '' */}'' @ commentNumbered rest
      | None \<Rightarrow> c # commentNumbered cs)"
  by pat_completeness auto

termination commentNumbered
  by (relation "measure length") (auto dest!: numberedMatch_length)

definition unclosedMatch :: "string \<Rightarrow> string option" where
  \<comment> \<open>\<open>/\{[^}]*$/m\<close>: the rest after the match. From \<open>{\<close> the class runs over everything
      before the next \<open>}\<close>, line breaks included, and gives characters back until \<open>$\<close>
      holds: at the end of the input when no \<open>}\<close> follows, otherwise before the last line
      terminator that precedes that \<open>}\<close>.\<close>
  "unclosedMatch s =
     (case s of
        [] \<Rightarrow> None
      | c # cs \<Rightarrow>
          if c = CHR ''{''
          then (let seg = takeWhile (\<lambda>x. x \<noteq> CHR ''}'') cs
                in if length seg = length cs then Some []
                   else if \<exists>x \<in> set seg. isLineTerm x
                   then Some (drop (length (dropWhile (\<lambda>x. \<not> isLineTerm x) (rev seg)) - 1) cs)
                   else None)
          else None)"

lemma unclosedMatch_length: "unclosedMatch s = Some r \<Longrightarrow> length r < length s"
  unfolding unclosedMatch_def Let_def
  by (auto split: list.splits if_splits)

function removeUnclosed :: "string \<Rightarrow> string" where
  \<comment> \<open>\<open>.replace(/\{[^}]*$/gm, '')\<close>\<close>
  "removeUnclosed [] = []"
| "removeUnclosed (c # cs) =
     (case unclosedMatch (c # cs) of
        Some rest \<Rightarrow> removeUnclosed rest
      | None \<Rightarrow> c # removeUnclosed cs)"
  by pat_completeness auto

termination removeUnclosed
  by (relation "measure length") (auto dest!: unclosedMatch_length)

definition cleanYaml :: "string \<Rightarrow> string" where
  \<comment> \<open>the callback: lines holding \<open>{{\<close> or \<open>}}\<close> are dropped\<close>
  "cleanYaml yaml =
     join [LF] (filter (\<lambda>line. \<not> includesStr line ''{{'' \<and> \<not> includesStr line ''}}'')
                       (splitChar LF yaml))"

definition fmMatchHere :: "string \<Rightarrow> (string \<times> string) option" where
  \<comment> \<open>\<open>---\s*\n([\s\S]*?)\n---\<close> at a position where \<open>^\<close> holds: the group and the rest.
      \<open>\s*\<close> takes the whole run of white space after the dashes and gives it back one
      character at a time, so the line feed that follows it is tried at each line feed of
      the run, the last one first; from there the lazy group ends at the first line feed
      followed by three dashes.\<close>
  "fmMatchHere s =
     (if prefix ''---'' s
      then (let r = drop 3 s;
                w = takeWhile isSpace r;
                js = rev (filter (\<lambda>j. w ! j = LF) [0..<length w])
            in firstSome (\<lambda>j. splitOnFirst (LF # ''---'') (drop (Suc j) r)) js)
      else None)"

fun fmReplace :: "bool \<Rightarrow> string \<Rightarrow> string" where
  \<comment> \<open>\<open>.replace(/^---\s*\n([\s\S]*?)\n---/m, ...)\<close>, the first match only; the flag says
      whether \<open>^\<close> holds here: at the start, and after a line terminator\<close>
  "fmReplace atStart [] = []"
| "fmReplace atStart (c # cs) =
     (case (if atStart then fmMatchHere (c # cs) else None) of
        Some (yaml, rest) \<Rightarrow> ''---'' @ [LF] @ cleanYaml yaml @ [LF] @ ''---'' @ rest
      | None \<Rightarrow> c # fmReplace (isLineTerm c) cs)"

definition sanitizeMDXContent :: "string \<Rightarrow> string" where
  "sanitizeMDXContent content =
     (if content = [] then []
      else trim (fmReplace True (removeUnclosed (commentNumbered
             (closeTags (normalizeBr (stripDoctype content)))))))"

section \<open>Values, projects and files\<close>

datatype jsval = JUndefined | JStr string | JNum nat | JList "string list"

fun digits :: "nat \<Rightarrow> string" where
  \<comment> \<open>the decimal numeral of a number\<close>
  "digits n = (if n < 10 then [char_of (48 + n)] else digits (n div 10) @ [char_of (48 + n mod 10)])"

declare digits.simps [simp del]

fun toStr :: "jsval \<Rightarrow> string" where
  \<comment> \<open>what a template literal puts for a value\<close>
  "toStr JUndefined = ''undefined''"
| "toStr (JStr s) = s"
| "toStr (JNum n) = digits n"
| "toStr (JList xs) = join '','' xs"

text \<open>
  An entry of \<open>PROJECT_CONFIG\<close> in the selective project configuration. The two lists the
  scanner defaults with \<open>|| []\<close> may be missing.
\<close>

record projectConfig =
  cfg_id :: string
  cfg_displayName :: string
  cfg_sourcePath :: string
  cfg_outputPath :: string
  cfg_category :: string
  cfg_priority :: nat
  cfg_documentTypes :: "string list"
  cfg_scanStrategy :: string
  cfg_primaryFiles :: "string list option"
  cfg_skipPatterns :: "string list option"

text \<open>The project object that \<open>scan\<close> builds; these ten are all its properties.\<close>

record project =
  p_name :: string
  p_path :: string
  p_displayName :: string
  p_category :: string
  p_priority :: nat
  p_documentTypes :: "string list"
  p_scanStrategy :: string
  p_outputPath :: string
  p_primaryFiles :: "string list"
  p_skipPatterns :: "string list"

definition mkProject :: "projectConfig \<Rightarrow> project" where
  \<comment> \<open>the object literal in \<open>scan\<close>\<close>
  "mkProject c =
     \<lparr>p_name = cfg_id c,
      p_path = cfg_sourcePath c,
      p_displayName = cfg_displayName c,
      p_category = cfg_category c,
      p_priority = cfg_priority c,
      p_documentTypes = cfg_documentTypes c,
      p_scanStrategy = cfg_scanStrategy c,
      p_outputPath = cfg_outputPath c,
      p_primaryFiles = (case cfg_primaryFiles c of None \<Rightarrow> [] | Some fs \<Rightarrow> fs),
      p_skipPatterns = (case cfg_skipPatterns c of None \<Rightarrow> [] | Some ps \<Rightarrow> ps)\<rparr>"

definition getProperty :: "project \<Rightarrow> string \<Rightarrow> jsval" where
  \<comment> \<open>\<open>project[key]\<close>: the value of a property the object has, \<open>undefined\<close> for any other
      key\<close>
  "getProperty p key =
     (if key = ''name'' then JStr (p_name p)
      else if key = ''path'' then JStr (p_path p)
      else if key = ''displayName'' then JStr (p_displayName p)
      else if key = ''category'' then JStr (p_category p)
      else if key = ''priority'' then JNum (p_priority p)
      else if key = ''documentTypes'' then JList (p_documentTypes p)
      else if key = ''scanStrategy'' then JStr (p_scanStrategy p)
      else if key = ''outputPath'' then JStr (p_outputPath p)
      else if key = ''primaryFiles'' then JList (p_primaryFiles p)
      else if key = ''skipPatterns'' then JList (p_skipPatterns p)
      else JUndefined)"

text \<open>A file record pushed by \<open>scanSelectiveProjectFiles\<close>.\<close>

record sourceFile =
  f_path :: string
  f_relativePath :: string
  f_content :: string
  f_classification :: string
  f_size :: nat
  f_modified :: nat

text \<open>What \<open>generateSelectiveDocument\<close> returns for a written (or dry-run) document.\<close>

record generatedDoc =
  d_type :: string
  d_classification :: string
  d_path :: string
  d_relativePath :: string

section \<open>Document text\<close>

definition toUpperChar :: "char \<Rightarrow> string" where
  \<comment> \<open>\<open>toUpperCase\<close> on one code unit: a-z, the Latin-1 small letters 0xE0-0xFE except
      0xF7, and sharp s, which becomes two letters. The capitals of 0xB5 and 0xFF lie
      beyond code unit 255 and cannot be written here; these two are left as they are.\<close>
  "toUpperChar c =
     (let n = (of_char c :: nat)
      in if (97 \<le> n \<and> n \<le> 122) \<or> (224 \<le> n \<and> n \<le> 254 \<and> n \<noteq> 247)
         then [char_of (n - 32)]
         else if n = 223 then ''SS'' else [c])"

definition capitalize :: "string \<Rightarrow> string" where
  \<comment> \<open>\<open>s.charAt(0).toUpperCase() + s.slice(1)\<close>\<close>
  "capitalize s = (case s of [] \<Rightarrow> [] | c # cs \<Rightarrow> toUpperChar c @ cs)"

fun replaceFirstChar :: "char \<Rightarrow> char \<Rightarrow> string \<Rightarrow> string" where
  \<comment> \<open>\<open>s.replace('x', 'y')\<close> with one-character strings: the first occurrence only\<close>
  "replaceFirstChar x y [] = []"
| "replaceFirstChar x y (c # cs) = (if c = x then y # cs else c # replaceFirstChar x y cs)"

definition today :: "string \<Rightarrow> string" where
  \<comment> \<open>\<open>new Date().toISOString().split('T')[0]\<close>, from the ISO string of the reading\<close>
  "today now = hd (splitChar (CHR ''T'') now)"

definition unlines :: "string list \<Rightarrow> string" where
  \<comment> \<open>the lines of a template literal\<close>
  "unlines ls = join [LF] ls"

definition generateCleanFrontmatter ::
    "project \<Rightarrow> string \<Rightarrow> sourceFile option \<Rightarrow> string \<Rightarrow> string" where
  \<comment> \<open>the last argument is the ISO string the clock gives when the date is read\<close>
  "generateCleanFrontmatter proj documentType source now =
     (let frontmatter =
            [(''title'', toStr (getProperty proj ''displayName'') @ '' - '' @ capitalize documentType),
             (''description'',
                documentType @ '' documentation for '' @ toStr (getProperty proj ''displayName'')),
             (''category'', toStr (getProperty proj ''category'')),
             (''lastUpdated'', today now),
             (''project'', toStr (getProperty proj ''id''))]
            @ (case source of
                 None \<Rightarrow> []
               | Some src \<Rightarrow> [(''sourceFile'', f_relativePath src)])
      in ''---'' @ [LF]
         @ join [LF] (map (\<lambda>(key, value). key @ '': '' @ [CHR 0x22] @ value @ [CHR 0x22]) frontmatter)
         @ [LF] @ ''---'')"

definition findReadme :: "sourceFile list \<Rightarrow> sourceFile option" where
  \<comment> \<open>\<open>files.find(f => f.relativePath.toLowerCase().includes('readme'))\<close>\<close>
  "findReadme files =
     List.find (\<lambda>f. includesStr (toLowerCase (f_relativePath f)) ''readme'') files"

definition findClassified :: "string \<Rightarrow> sourceFile list \<Rightarrow> sourceFile option" where
  \<comment> \<open>\<open>files.find(f => f.classification === t || f.relativePath.toLowerCase().includes(t))\<close>\<close>
  "findClassified t files =
     List.find (\<lambda>f. f_classification f = t \<or> includesStr (toLowerCase (f_relativePath f)) t)
       files"

definition generateIntroductionContent :: "project \<Rightarrow> sourceFile list \<Rightarrow> string \<Rightarrow> string" where
  "generateIntroductionContent proj files now =
     (let description =
            (case findReadme files of
               Some readmeFile \<Rightarrow> join [LF] (take 3 (splitChar LF (f_content readmeFile)))
             | None \<Rightarrow> p_displayName proj @ '' is a professional project in the ''
                        @ p_category proj @ '' category.'')
      in unlines
           [''# '' @ p_displayName proj,
            [],
            sanitizeMDXContent description,
            [],
            ''## Overview'',
            [],
            ''This project is part of the LostMind AI ecosystem and represents our work in ''
              @ replaceFirstChar (CHR ''-'') (CHR '' '') (p_category proj) @ ''.'',
            [],
            ''## Navigation'',
            [],
            ''- [README](./readme) - Complete project documentation'',
            ''- [Architecture](./architecture) - Technical architecture details'',
            (if ''development'' \<in> set (p_documentTypes proj)
             then ''- [Development](./development) - Development setup and guidelines''
             else []),
            [],
            ''## Project Details'',
            [],
            ''- **Category**: '' @ p_category proj,
            ''- **Priority**: '' @ digits (p_priority proj),
            ''- **Scan Strategy**: '' @ p_scanStrategy proj,
            ''- **Last Updated**: '' @ today now,
            [],
            ''---'',
            [],
            ''*This documentation was automatically generated from project sources.*''])"

definition generateDefaultReadme :: "project \<Rightarrow> string" where
  "generateDefaultReadme proj =
     unlines
       [''# '' @ p_displayName proj,
        [],
        ''Welcome to '' @ p_displayName proj @ '', a key component of the LostMind AI ecosystem.'',
        [],
        ''## About'',
        [],
        ''This project focuses on '' @ replaceFirstChar (CHR ''-'') (CHR '' '') (p_category proj)
          @ '' and is maintained as part of our professional development infrastructure.'',
        [],
        ''## Status'',
        [],
        ''- **Project Category**: '' @ p_category proj,
        ''- **Priority Level**: '' @ digits (p_priority proj),
        ''- **Documentation Strategy**: '' @ p_scanStrategy proj,
        [],
        ''## Getting Started'',
        [],
        ''Please refer to the source project for detailed setup and usage instructions.'',
        [],
        ''## Support'',
        [],
        ''For questions and support, please contact the LostMind AI team.'',
        [],
        ''---'',
        [],
        ''*Note: This is auto-generated documentation. Source README file was not found at the expected location.*'']"

definition generateDefaultArchitecture :: "project \<Rightarrow> string" where
  "generateDefaultArchitecture proj =
     unlines
       [''# Architecture Overview'',
        [],
        ''## '' @ p_displayName proj @ '' Architecture'',
        [],
        ''This document outlines the architectural design and technical decisions for ''
          @ p_displayName proj @ ''.'',
        [],
        ''## System Overview'',
        [],
        p_displayName proj @ '' is designed as a ''
          @ replaceFirstChar (CHR ''-'') (CHR '' '') (p_category proj)
          @ '' solution with focus on scalability and maintainability.'',
        [],
        ''## Key Components'',
        [],
        ''- **Core Infrastructure**: Primary application logic'',
        ''- **Data Layer**: Information processing and storage'',
        ''- **Integration Layer**: External service connections'',
        ''- **Presentation Layer**: User interface and API endpoints'',
        [],
        ''## Technical Stack'',
        [],
        ''Details about the technical implementation are available in the source project documentation.'',
        [],
        ''## Design Decisions'',
        [],
        ''Architecture decisions are driven by:'',
        ''- Performance requirements'',
        ''- Scalability needs'',
        ''- Maintainability goals'',
        ''- Integration capabilities'',
        [],
        ''---'',
        [],
        ''*Note: This is auto-generated architecture documentation. Source architecture files were not found.*'']"

definition generateDefaultDevelopment :: "project \<Rightarrow> string" where
  "generateDefaultDevelopment proj =
     unlines
       [''# Development Guide'',
        [],
        ''## '' @ p_displayName proj @ '' Development'',
        [],
        ''This guide covers development setup and workflow for '' @ p_displayName proj @ ''.'',
        [],
        ''## Prerequisites'',
        [],
        ''Please refer to the source project for specific prerequisites and requirements.'',
        [],
        ''## Setup'',
        [],
        ''1. Clone the repository'',
        ''2. Install dependencies'',
        ''3. Configure environment'',
        ''4. Run development server'',
        [],
        ''## Development Workflow'',
        [],
        ''Standard development practices apply:'',
        ''- Feature branch workflow'',
        ''- Code review process'',
        ''- Testing requirements'',
        ''- Documentation updates'',
        [],
        ''## Contributing'',
        [],
        ''Contributions are welcome. Please follow the established coding standards and testing procedures.'',
        [],
        ''---'',
        [],
        ''*Note: This is auto-generated development documentation. Source development files were not found.*'']"

definition frontmatterBlock :: "string \<Rightarrow> string option" where
  \<comment> \<open>the group of \<open>/^---\s*\n([\s\S]*?)\n---/\<close> without the \<open>m\<close> flag: a match at the very
      start only\<close>
  "frontmatterBlock content = map_option fst (fmMatchHere content)"

definition validateMDXSyntax :: "string \<Rightarrow> bool" where
  \<comment> \<open>the scanner's check before writing; the count of opening and closing tags only
      leads to a debug message and decides nothing\<close>
  "validateMDXSyntax content =
     (let issues =
            (if CHR ''{'' \<in> set content \<and> CHR ''}'' \<notin> set content
             then [''Unclosed JSX expression''] else [])
            @ (if includesStr content ''<!DOCTYPE'' then [''DOCTYPE declaration found''] else [])
            @ (case frontmatterBlock content of
                 None \<Rightarrow> []
               | Some yamlContent \<Rightarrow>
                   if includesStr yamlContent ''{{'' \<or> includesStr yamlContent ''}}''
                   then [''Template syntax in frontmatter''] else [])
      in issues = [])"

section \<open>FileClassifier\<close>

definition classify :: "string \<Rightarrow> string \<Rightarrow> string" where
  "classify filePath content =
     (let filename = toLowerCase (basename filePath);
          ext = toLowerCase (extname filePath)
      in if includesStr filename ''readme'' then ''readme''
         else if includesStr filename ''claude'' then ''ai-context''
         else if includesStr filename ''changelog'' \<or> includesStr filename ''changes'' then ''changelog''
         else if includesStr filename ''api'' \<or> includesStr filename ''reference'' then ''api-reference''
         else if includesStr filename ''guide'' \<or> includesStr filename ''tutorial'' then ''guide''
         else if includesStr filename ''quickstart'' \<or> includesStr filename ''getting-started''
              then ''quickstart''
         else if includesStr filename ''architecture'' \<or> includesStr filename ''design''
              then ''architecture''
         else if includesStr filename ''deployment'' \<or> includesStr filename ''deploy'' then ''deployment''
         else if includesStr filename ''development'' \<or> includesStr filename ''dev'' then ''development''
         else if includesStr filename ''security'' \<or> includesStr filename ''auth'' then ''security''
         else if includesStr filename ''migration'' \<or> includesStr filename ''upgrade'' then ''migration''
         else let contentLower = toLowerCase content
              in if includesStr contentLower ''# api'' \<or> includesStr contentLower ''## endpoints''
                 then ''api-reference''
                 else if includesStr contentLower ''# quick start''
                         \<or> includesStr contentLower ''## getting started''
                 then ''quickstart''
                 else if includesStr contentLower ''# architecture''
                         \<or> includesStr contentLower ''## system design''
                 then ''architecture''
                 else if ext \<in> set [''.md'', ''.mdx''] then ''documentation''
                 else if ext \<in> set [''.js'', ''.ts'', ''.py'', ''.java''] then ''code''
                 else if filename = ''package.json'' then ''config''
                 else if ext \<in> set [''.json'', ''.yaml'', ''.yml''] \<and> includesStr filename ''api''
                 then ''api-spec''
                 else ''misc'')"

datatype navOrder =
    Order nat
  | Inherited string  \<comment> \<open>a property every object inherits from \<open>Object.prototype\<close>\<close>

definition orderTable :: "(string \<times> nat) list" where
  "orderTable =
     [(''readme'', 1), (''quickstart'', 2), (''guide'', 3), (''api-reference'', 4),
      (''architecture'', 5), (''development'', 6), (''deployment'', 7), (''security'', 8),
      (''migration'', 9), (''changelog'', 10), (''ai-context'', 11), (''documentation'', 12),
      (''misc'', 99)]"

definition objectPrototypeKeys :: "string list" where
  \<comment> \<open>the names an object literal answers to without defining them\<close>
  "objectPrototypeKeys =
     [''constructor'', ''__proto__'', ''hasOwnProperty'', ''isPrototypeOf'',
      ''propertyIsEnumerable'', ''toLocaleString'', ''toString'', ''valueOf'',
      ''__defineGetter__'', ''__defineSetter__'', ''__lookupGetter__'', ''__lookupSetter__'']"

definition getNavigationOrder :: "string \<Rightarrow> navOrder" where
  \<comment> \<open>\<open>order[type] || 50\<close>: every table entry is a non-zero number, hence truthy\<close>
  "getNavigationOrder type =
     (case map_of orderTable type of
        Some n \<Rightarrow> Order n
      | None \<Rightarrow> if type \<in> set objectPrototypeKeys then Inherited type else Order 50)"

section \<open>The world the scanner runs in\<close>

text \<open>
  The file system is read through \<open>disk\<close>, from path strings as the program passes them
  to \<open>fs\<close>. Whether a write or a \<open>mkdir\<close> at a path succeeds is decided by the operating
  system: \<open>writable\<close>. Every write that is carried out is appended to the \<open>writes\<close> of the
  scanner state; the scanner does not read back what it writes, so reads go to \<open>disk\<close> as it
  was when the run began. \<open>clock n\<close> is the ISO string of the \<open>n\<close>-th reading of the time in
  a run.
\<close>

datatype node = File string nat nat | Dir  \<comment> \<open>a file: content, size, modification time\<close>

record world =
  disk :: "string \<Rightarrow> node option"
  writable :: "string \<Rightarrow> bool"
  clock :: "nat \<Rightarrow> string"
  cwd :: string

datatype fsop =
    Mkdir string
  | WriteFile string string
  | WriteNavigation string "(string \<times> string list) list"
      \<comment> \<open>\<open>navigation.json\<close>: the groups and their pages, serialized by \<open>JSON.stringify\<close>\<close>
  | WriteSummary string string nat "(string \<times> nat) list"
      \<comment> \<open>\<open>project-summary.json\<close> for the timestamp, the number of projects and the
          categories given, in the order they are serialized\<close>

datatype jsError = TypeError string | FsError string

record options =
  opt_verbose :: bool
  opt_dryRun :: bool
  opt_outputDir :: string

record navEntry =
  n_title :: jsval
  n_path :: jsval
  n_category :: string

record scanner =
  projectsFound :: nat
  filesProcessed :: nat
  errorsEncountered :: nat
  assetscopied :: nat
  navigation :: "(string \<times> navEntry list) list"
  writes :: "fsop list"
  tick :: nat

definition newScanner :: scanner where
  "newScanner =
     \<lparr>projectsFound = 0, filesProcessed = 0, errorsEncountered = 0, assetscopied = 0,
      navigation = [], writes = [], tick = 0\<rparr>"

definition logError :: "scanner \<Rightarrow> scanner" where
  \<comment> \<open>\<open>logger.error(...)\<close>: the message goes to the console, the counter goes up\<close>
  "logError st = st\<lparr>errorsEncountered := Suc (errorsEncountered st)\<rparr>"

definition readClock :: "world \<Rightarrow> scanner \<Rightarrow> string \<times> scanner" where
  \<comment> \<open>\<open>new Date().toISOString()\<close>\<close>
  "readClock w st = (clock w (tick st), st\<lparr>tick := Suc (tick st)\<rparr>)"

definition pathExists :: "world \<Rightarrow> string \<Rightarrow> bool" where
  "pathExists w p = (disk w p \<noteq> None)"

definition glob :: "world \<Rightarrow> string \<Rightarrow> string list" where
  \<comment> \<open>only whether the exact path exists\<close>
  "glob w pattern = (if pathExists w pattern then [pattern] else [])"

definition scanPattern :: "world \<Rightarrow> project \<Rightarrow> string \<Rightarrow> sourceFile list" where
  \<comment> \<open>the body of the loop of \<open>scanSelectiveProjectFiles\<close> for one pattern\<close>
  "scanPattern w proj pattern =
     (let globPattern = joinPath [p_path proj, pattern]
      in concat (map (\<lambda>filePath.
           if \<exists>skipPattern \<in> set (p_skipPatterns proj). includesStr filePath skipPattern
           then []
           else (case disk w filePath of
                   Some (File content sz mtime) \<Rightarrow>
                     [\<lparr>f_path = filePath,
                       f_relativePath = relative (cwd w) (p_path proj) filePath,
                       f_content = content,
                       f_classification = classify filePath content,
                       f_size = sz,
                       f_modified = mtime\<rparr>]
                 | _ \<Rightarrow> []))
          (glob w globPattern)))"

definition scanSelectiveProjectFiles :: "world \<Rightarrow> project \<Rightarrow> sourceFile list" where
  "scanSelectiveProjectFiles w proj = concat (map (scanPattern w proj) (p_primaryFiles proj))"

definition finishDocument ::
    "world \<Rightarrow> options \<Rightarrow> project \<Rightarrow> string \<Rightarrow> string \<Rightarrow> string \<Rightarrow> sourceFile option
       \<Rightarrow> scanner \<Rightarrow> (jsError + generatedDoc option) \<times> scanner" where
  \<comment> \<open>\<open>generateSelectiveDocument\<close> after the \<open>switch\<close>: frontmatter, check, write\<close>
  "finishDocument w opts proj documentType outputDir content primarySource st =
     (let fileName = documentType @ ''.mdx'';
          filePath = joinPath [outputDir, fileName];
          (now, st1) = readClock w st;
          frontmatter = generateCleanFrontmatter proj documentType primarySource now;
          finalContent = frontmatter @ [LF, LF] @ content;
          doc = \<lparr>d_type = documentType,
                 d_classification = documentType,
                 d_path = relative (cwd w) ''./apps/docs'' filePath,
                 d_relativePath = relative (cwd w) (opt_outputDir opts) filePath\<rparr>
      in if validateMDXSyntax finalContent
         then (if \<not> opt_dryRun opts
               then (if writable w filePath
                     then (Inr (Some doc),
                           st1\<lparr>writes := writes st1 @ [WriteFile filePath finalContent]\<rparr>)
                     else (Inl (FsError filePath), st1))
               else (Inr (Some doc), st1))
         else (Inr None, logError st1))"

definition generateSelectiveDocument ::
    "world \<Rightarrow> options \<Rightarrow> project \<Rightarrow> sourceFile list \<Rightarrow> string \<Rightarrow> string
       \<Rightarrow> scanner \<Rightarrow> (jsError + generatedDoc option) \<times> scanner" where
  \<comment> \<open>the default branch calls \<open>this.logger.warn\<close>, which \<open>Logger\<close> does not define\<close>
  "generateSelectiveDocument w opts proj files documentType outputDir st =
     (if documentType = ''introduction''
      then (let (now, st1) = readClock w st
            in finishDocument w opts proj documentType outputDir
                 (generateIntroductionContent proj files now) None st1)
      else if documentType = ''readme''
      then (let primarySource = findReadme files
            in finishDocument w opts proj documentType outputDir
                 (case primarySource of
                    Some src \<Rightarrow> sanitizeMDXContent (f_content src)
                  | None \<Rightarrow> generateDefaultReadme proj)
                 primarySource st)
      else if documentType = ''architecture''
      then (let primarySource = findClassified ''architecture'' files
            in finishDocument w opts proj documentType outputDir
                 (case primarySource of
                    Some src \<Rightarrow> sanitizeMDXContent (f_content src)
                  | None \<Rightarrow> generateDefaultArchitecture proj)
                 primarySource st)
      else if documentType = ''development''
      then (let primarySource = findClassified ''development'' files
            in finishDocument w opts proj documentType outputDir
                 (case primarySource of
                    Some src \<Rightarrow> sanitizeMDXContent (f_content src)
                  | None \<Rightarrow> generateDefaultDevelopment proj)
                 primarySource st)
      else (Inl (TypeError ''this.logger.warn is not a function''), st))"

fun generateAll ::
    "world \<Rightarrow> options \<Rightarrow> project \<Rightarrow> sourceFile list \<Rightarrow> string \<Rightarrow> string list
       \<Rightarrow> scanner \<Rightarrow> generatedDoc list \<times> scanner" where
  \<comment> \<open>the loop of \<open>processSelectiveProject\<close> over the document types; an exception is
      logged and the loop goes on\<close>
  "generateAll w opts proj files outputDir [] st = ([], st)"
| "generateAll w opts proj files outputDir (documentType # rest) st =
     (case generateSelectiveDocument w opts proj files documentType outputDir st of
        (Inr (Some processed), st1) \<Rightarrow>
          (let (docs, st2) = generateAll w opts proj files outputDir rest st1
           in (processed # docs, st2))
      | (Inr None, st1) \<Rightarrow> generateAll w opts proj files outputDir rest st1
      | (Inl err, st1) \<Rightarrow> generateAll w opts proj files outputDir rest (logError st1))"

definition orderKey :: "string \<Rightarrow> nat" where
  \<comment> \<open>the number that \<open>orderA - orderB\<close> compares; the labels that reach the sort are
      document types and classifier labels, none of them an inherited property name\<close>
  "orderKey t = (case getNavigationOrder t of Order n \<Rightarrow> n | Inherited _ \<Rightarrow> 0)"

fun insertByOrder :: "('a \<Rightarrow> nat) \<Rightarrow> 'a \<Rightarrow> 'a list \<Rightarrow> 'a list" where
  "insertByOrder k x [] = [x]"
| "insertByOrder k x (y # ys) = (if k y \<le> k x then y # insertByOrder k x ys else x # y # ys)"

definition stableSort :: "('a \<Rightarrow> nat) \<Rightarrow> 'a list \<Rightarrow> 'a list" where
  \<comment> \<open>\<open>Array.prototype.sort\<close> with a comparator that subtracts keys: stable\<close>
  "stableSort k xs = foldl (\<lambda>acc x. insertByOrder k x acc) [] xs"

fun setKey :: "string \<Rightarrow> 'v \<Rightarrow> (string \<times> 'v) list \<Rightarrow> (string \<times> 'v) list" where
  \<comment> \<open>\<open>obj[key] = v\<close>: a key keeps its place, a new one goes last\<close>
  "setKey k v [] = [(k, v)]"
| "setKey k v ((k', v') # kvs) = (if k' = k then (k, v) # kvs else (k', v') # setKey k v kvs)"

definition isArrayIndex :: "string \<Rightarrow> bool" where
  \<comment> \<open>a key that is the canonical numeral of an integer below \<open>2^32 - 1\<close>\<close>
  "isArrayIndex k =
     (k \<noteq> [] \<and> (\<forall>c \<in> set k. isDigit c) \<and> (k = ''0'' \<or> hd k \<noteq> CHR ''0'') \<and>
      foldl (\<lambda>n c. 10 * n + (of_char c - 48)) (0::nat) k < 4294967295)"

definition ownEntries :: "(string \<times> 'v) list \<Rightarrow> (string \<times> 'v) list" where
  \<comment> \<open>\<open>Object.entries(obj)\<close> of an object whose properties were set in the order of the
      list: the integer keys first, in ascending order, then the others as they were set\<close>
  "ownEntries kvs =
     stableSort (\<lambda>(k, v). foldl (\<lambda>n c. 10 * n + (of_char c - 48)) (0::nat) k)
       (filter (\<lambda>(k, v). isArrayIndex k) kvs)
     @ filter (\<lambda>(k, v). \<not> isArrayIndex k) kvs"

definition addProject :: "string \<Rightarrow> navEntry list \<Rightarrow> scanner \<Rightarrow> scanner" where
  \<comment> \<open>\<open>NavigationBuilder.addProject\<close>; of each file it reads \<open>title\<close>, \<open>outputPath\<close> and
      \<open>classification\<close>, given here as the entry made of them\<close>
  "addProject projectName files st =
     (let sortedFiles =
            stableSort (\<lambda>file. orderKey (n_category file))
              (filter (\<lambda>file. n_category file \<noteq> ''code'' \<and> n_category file \<noteq> ''misc'') files)
      in st\<lparr>navigation := setKey projectName sortedFiles (navigation st)\<rparr>)"

definition docEntry :: "generatedDoc \<Rightarrow> navEntry" where
  \<comment> \<open>a document of the selective pipeline has neither a \<open>title\<close> nor an \<open>outputPath\<close>\<close>
  "docEntry file =
     \<lparr>n_title = JUndefined, n_path = JUndefined, n_category = d_classification file\<rparr>"

definition processSelectiveProject ::
    "world \<Rightarrow> options \<Rightarrow> project \<Rightarrow> scanner \<Rightarrow> (jsError + generatedDoc list) \<times> scanner" where
  "processSelectiveProject w opts proj st =
     (let outputDir = p_outputPath proj
      in if \<not> opt_dryRun opts \<and> \<not> writable w outputDir
         then (Inl (FsError outputDir), st)
         else (let st1 = (if \<not> opt_dryRun opts
                          then st\<lparr>writes := writes st @ [Mkdir outputDir]\<rparr> else st);
                   files = scanSelectiveProjectFiles w proj;
                   (processedFiles, st2) =
                     generateAll w opts proj files outputDir (p_documentTypes proj) st1
               in (Inr processedFiles,
                   addProject (p_name proj) (map docEntry processedFiles) st2)))"

definition replaceFirstStr :: "string \<Rightarrow> string \<Rightarrow> string \<Rightarrow> string" where
  \<comment> \<open>\<open>s.replace(sub, by)\<close> with a string pattern: the first occurrence only\<close>
  "replaceFirstStr sub by s =
     (case splitOnFirst sub s of None \<Rightarrow> s | Some (a, b) \<Rightarrow> a @ by @ b)"

fun mintlifyPages :: "navEntry list \<Rightarrow> jsError + string list" where
  \<comment> \<open>\<open>project.files.map(file => file.path.replace('.mdx', '').replace('./apps/docs/', ''))\<close>;
      \<open>replace\<close> on a path that is not a string raises\<close>
  "mintlifyPages [] = Inr []"
| "mintlifyPages (e # es) =
     (case n_path e of
        JStr s \<Rightarrow>
          (case mintlifyPages es of
             Inl err \<Rightarrow> Inl err
           | Inr ps \<Rightarrow> Inr (replaceFirstStr ''./apps/docs/'' [] (replaceFirstStr ''.mdx'' [] s) # ps))
      | _ \<Rightarrow> Inl (TypeError ''Cannot read properties of undefined (reading replace)''))"

fun generateMintlifyConfig ::
    "(string \<times> navEntry list) list \<Rightarrow> jsError + (string \<times> string list) list" where
  "generateMintlifyConfig [] = Inr []"
| "generateMintlifyConfig ((projectName, entries) # rest) =
     (case mintlifyPages entries of
        Inl err \<Rightarrow> Inl err
      | Inr pages \<Rightarrow>
          (case generateMintlifyConfig rest of
             Inl err \<Rightarrow> Inl err
           | Inr groups \<Rightarrow> Inr ((projectName, pages) # groups)))"

definition save :: "world \<Rightarrow> string \<Rightarrow> scanner \<Rightarrow> (jsError + unit) \<times> scanner" where
  \<comment> \<open>\<open>NavigationBuilder.save\<close>\<close>
  "save w outputPath st =
     (case generateMintlifyConfig (ownEntries (navigation st)) of
        Inl err \<Rightarrow> (Inl err, st)
      | Inr groups \<Rightarrow>
          if writable w outputPath
          then (Inr (), st\<lparr>writes := writes st @ [WriteNavigation outputPath groups]\<rparr>)
          else (Inl (FsError outputPath), st))"

definition countCategory :: "(string \<times> nat) list \<Rightarrow> string \<Rightarrow> (string \<times> nat) list" where
  \<comment> \<open>\<open>categories[c] = (categories[c] || 0) + 1\<close>\<close>
  "countCategory categories c =
     setKey c (Suc (case map_of categories c of None \<Rightarrow> 0 | Some n \<Rightarrow> n)) categories"

definition getCategoryBreakdown :: "project list \<Rightarrow> (string \<times> nat) list" where
  \<comment> \<open>the projects are counted from the first to the last\<close>
  "getCategoryBreakdown projects = foldl countCategory [] (map p_category projects)"

definition generateSummary ::
    "world \<Rightarrow> options \<Rightarrow> project list \<Rightarrow> scanner \<Rightarrow> (jsError + unit) \<times> scanner" where
  \<comment> \<open>the summary reads \<open>p.files.length\<close> of every project, and the project objects of
      the selective scan have no \<open>files\<close>\<close>
  "generateSummary w opts projects st =
     (let summaryPath = joinPath [opt_outputDir opts, ''../project-summary.json''];
          (generatedAt, st1) = readClock w st
      in if projects \<noteq> []
         then (Inl (TypeError ''Cannot read properties of undefined (reading length)''), st1)
         else if writable w summaryPath
         then (Inr (),
               st1\<lparr>writes := writes st1
                  @ [WriteSummary summaryPath generatedAt (length projects)
                       (ownEntries (getCategoryBreakdown projects))]\<rparr>)
         else (Inl (FsError summaryPath), st1))"

fun selectProjects :: "world \<Rightarrow> projectConfig list \<Rightarrow> scanner \<Rightarrow> project list \<times> scanner" where
  \<comment> \<open>the first loop of \<open>scan\<close>: a configured project whose source path is missing is
      logged as an error and left out\<close>
  "selectProjects w [] st = ([], st)"
| "selectProjects w (projectConfig # rest) st =
     (if pathExists w (cfg_sourcePath projectConfig)
      then (let (ps, st1) = selectProjects w rest st in (mkProject projectConfig # ps, st1))
      else selectProjects w rest (logError st))"

fun processAll ::
    "world \<Rightarrow> options \<Rightarrow> project list \<Rightarrow> scanner \<Rightarrow> (jsError + unit) \<times> scanner" where
  \<comment> \<open>the second loop of \<open>scan\<close>; an exception out of a project ends the scan\<close>
  "processAll w opts [] st = (Inr (), st)"
| "processAll w opts (proj # rest) st =
     (case processSelectiveProject w opts proj st of
        (Inl err, st1) \<Rightarrow> (Inl err, st1)
      | (Inr _, st1) \<Rightarrow> processAll w opts rest st1)"

definition scan ::
    "world \<Rightarrow> options \<Rightarrow> projectConfig list \<Rightarrow> scanner
       \<Rightarrow> (jsError + project list) \<times> scanner" where
  \<comment> \<open>the selective \<open>scan\<close>; the third argument is \<open>CONFIG.projects\<close>\<close>
  "scan w opts projects st =
     (let (selectedProjects, st1) = selectProjects w projects st;
          st2 = st1\<lparr>projectsFound := length selectedProjects\<rparr>
      in case processAll w opts selectedProjects st2 of
           (Inl err, st3) \<Rightarrow> (Inl err, st3)
         | (Inr _, st3) \<Rightarrow>
             (case (if \<not> opt_dryRun opts
                    then save w (joinPath [opt_outputDir opts, ''../navigation.json'']) st3
                    else (Inr (), st3)) of
                (Inl err, st4) \<Rightarrow> (Inl err, st4)
              | (Inr _, st4) \<Rightarrow>
                  (case (if \<not> opt_dryRun opts
                         then generateSummary w opts selectedProjects st4
                         else (Inr (), st4)) of
                     (Inl err, st5) \<Rightarrow> (Inl err, st5)
                   | (Inr _, st5) \<Rightarrow> (Inr selectedProjects, st5))))"

definition parseOptions :: "string list \<Rightarrow> options" where
  \<comment> \<open>the flags \<open>main\<close> reads; the output directory is the one of \<open>CONFIG\<close>\<close>
  "parseOptions args =
     \<lparr>opt_verbose = (''--verbose'' \<in> set args \<or> ''-v'' \<in> set args),
      opt_dryRun = (''--dry-run'' \<in> set args),
      opt_outputDir = ''./apps/docs/projects''\<rparr>"

definition main :: "world \<Rightarrow> projectConfig list \<Rightarrow> string list \<Rightarrow> nat \<times> scanner" where
  \<comment> \<open>the exit status and the final state of the scanner\<close>
  "main w projects args =
     (case scan w (parseOptions args) projects newScanner of
        (Inl err, st) \<Rightarrow> (1, st)
      | (Inr _, st) \<Rightarrow> (0, st))"

text \<open>The source file and the template that the \<open>switch\<close> pairs with a document type.\<close>

definition sourceFor :: "string \<Rightarrow> sourceFile list \<Rightarrow> sourceFile option" where
  \<comment> \<open>\<open>primarySource\<close>; the introduction has none\<close>
  "sourceFor documentType files =
     (if documentType = ''introduction'' then None
      else if documentType = ''readme'' then findReadme files
      else findClassified documentType files)"

definition templateFor :: "string \<Rightarrow> project \<Rightarrow> string" where
  "templateFor documentType proj =
     (if documentType = ''readme'' then generateDefaultReadme proj
      else if documentType = ''architecture'' then generateDefaultArchitecture proj
      else generateDefaultDevelopment proj)"

section \<open>The legacy scan\<close>

text \<open>
  The scanner before the selective configuration walks base directories. The walk and
  the analysis of each project found (\<open>scanBasePath\<close>) are taken as a parameter
  \<open>discover\<close>; what is done with the projects is modelled below.
\<close>

record legacyFile =
  lf_path :: string
  lf_relativePath :: string
  lf_filename :: string
  lf_classification :: string
  lf_content :: string
  lf_frontmatter :: "(string \<times> string) list"
  lf_title :: string

record legacyProject =
  lp_name :: string
  lp_path :: string
  lp_displayName :: string
  lp_description :: string
  lp_version :: string
  lp_category :: string
  lp_priority :: nat
  lp_files :: "legacyFile list"
  lp_dependencies :: "(string \<times> string) list"

record processedFile =
  pf_file :: legacyFile
  pf_outputPath :: string
  pf_enhancedFrontmatter :: "(string \<times> jsval) list"

definition basenameExt :: "string \<Rightarrow> string \<Rightarrow> string" where
  \<comment> \<open>\<open>path.basename(p, ext)\<close>: the extension is cut from the last component when that
      ends with it and is longer; a path equal to the extension gives the empty string\<close>
  "basenameExt p ext =
     (if ext \<noteq> [] \<and> ext = p then []
      else let base = basename p
           in if ext \<noteq> [] \<and> length ext < length base \<and> suffix ext base
              then take (length base - length ext) base else base)"

definition isWordChar :: "char \<Rightarrow> bool" where
  "isWordChar c = (isAlnum c \<or> c = CHR ''_'')"

fun capitalizeWords :: "bool \<Rightarrow> string \<Rightarrow> string" where
  \<comment> \<open>\<open>.replace(/\b\w/g, l => l.toUpperCase())\<close>; the flag says whether the character
      before is a word character\<close>
  "capitalizeWords inWord [] = []"
| "capitalizeWords inWord (c # cs) =
     (if isWordChar c \<and> \<not> inWord then toUpperChar c else [c]) @ capitalizeWords (isWordChar c) cs"

definition generateTitle :: "string \<Rightarrow> string" where
  "generateTitle filename =
     trim (capitalizeWords False
             (map (\<lambda>c. if c = CHR ''-'' \<or> c = CHR ''_'' then CHR '' '' else c) filename))"

definition truthy :: "string option \<Rightarrow> bool" where
  \<comment> \<open>a property that is present and not the empty string\<close>
  "truthy v = (case v of None \<Rightarrow> False | Some s \<Rightarrow> s \<noteq> [])"

definition enhanceFrontmatter ::
    "string \<Rightarrow> (string \<times> string) list \<Rightarrow> legacyProject \<Rightarrow> string \<Rightarrow> (string \<times> jsval) list" where
  \<comment> \<open>the defaults in their order, then the spread of the existing frontmatter over them\<close>
  "enhanceFrontmatter filePath existingFrontmatter projectInfo now =
     (let filename = basenameExt filePath (extname filePath);
          classification = classify filePath [];
          existing = map_of existingFrontmatter;
          pick = (\<lambda>key dflt. if truthy (existing key) then JStr (the (existing key)) else dflt);
          base =
            [(''title'', pick ''title'' (JStr (generateTitle filename))),
             (''description'',
                pick ''description'' (JStr (classification @ '' for '' @ lp_name projectInfo))),
             (''category'', pick ''category'' (JStr classification)),
             (''project'', JStr (lp_name projectInfo)),
             (''lastUpdated'', JStr (today now)),
             (''tags'', pick ''tags'' (JList [classification, lp_category projectInfo]))]
      in foldl (\<lambda>acc (k, v). setKey k (JStr v) acc) base existingFrontmatter)"

definition linkMatch :: "nat \<Rightarrow> string \<Rightarrow> (string \<times> string \<times> string) option" where
  \<comment> \<open>\<open>/\[([^\]]{n,})\]\(([^)]{n,})\)/\<close> for \<open>n\<close> 0 or 1: the two groups and the rest. Each
      class runs to the first closing character; nothing shorter is followed by it.\<close>
  "linkMatch n s =
     (case s of
        [] \<Rightarrow> None
      | c # cs \<Rightarrow>
          if c \<noteq> CHR ''['' then None
          else (let text = takeWhile (\<lambda>x. x \<noteq> CHR '']'') cs;
                    r = drop (length text) cs
                in if length text < n \<or> \<not> prefix '']('' r then None
                   else (let url = takeWhile (\<lambda>x. x \<noteq> CHR '')'') (drop 2 r);
                             r' = drop (length url) (drop 2 r)
                         in if length url < n \<or> r' = [] then None
                            else Some (text, url, tl r'))))"

lemma linkMatch_length: "linkMatch n s = Some (t, u, r) \<Longrightarrow> length r < length s"
  unfolding linkMatch_def Let_def
  by (auto split: list.splits if_splits)

function allLinks :: "nat \<Rightarrow> string \<Rightarrow> (string \<times> string) list" where
  \<comment> \<open>the loop \<open>while ((match = linkRegex.exec(content)) !== null)\<close>: text and target of
      every match, from left to right\<close>
  "allLinks n [] = []"
| "allLinks n (c # cs) =
     (case linkMatch n (c # cs) of
        Some (text, url, rest) \<Rightarrow> (text, url) # allLinks n rest
      | None \<Rightarrow> allLinks n cs)"
  by pat_completeness auto

termination allLinks
  by (relation "measure (\<lambda>(n, s). length s)") (auto dest!: linkMatch_length)

declare allLinks.simps [simp del]

definition brokenLinks :: "world \<Rightarrow> string \<Rightarrow> string \<Rightarrow> nat" where
  \<comment> \<open>\<open>AssetManager.validateLinks\<close> returns the content as it is; what it does is log an
      error for every link that is neither external nor an anchor and whose target does
      not exist. This is their number.\<close>
  "brokenLinks w content basePath =
     length (filter (\<lambda>(text, url).
        \<not> prefix ''http'' url \<and> \<not> prefix ''#'' url \<and> \<not> pathExists w (resolve (cwd w) [basePath, url]))
       (allLinks 1 content))"

definition generateOutputFilename :: "legacyFile \<Rightarrow> string" where
  "generateOutputFilename file =
     (let base = basenameExt (lf_filename file) (extname (lf_filename file))
      in if toLowerCase base = ''readme'' then ''readme.mdx''
         else if includesStr (toLowerCase base) ''claude'' then ''ai-context.mdx''
         else map (\<lambda>c. if isAlnum c \<or> c = CHR ''-'' \<or> c = CHR ''_'' then c else CHR ''-'') base
              @ ''.mdx'')"

definition processDocumentationFile ::
    "world \<Rightarrow> options \<Rightarrow> legacyFile \<Rightarrow> legacyProject \<Rightarrow> string \<Rightarrow> scanner
       \<Rightarrow> (jsError + processedFile option) \<times> scanner" where
  \<comment> \<open>the file is written whatever the options say\<close>
  "processDocumentationFile w opts file proj outputDir st =
     (if lf_content file = [] \<or> lf_classification file = ''code'' then (Inr None, st)
      else (let outputPath = joinPath [outputDir, generateOutputFilename file];
                (now, st1) = readClock w st;
                enhancedFrontmatter = enhanceFrontmatter (lf_path file) (lf_frontmatter file) proj now;
                attribution = [LF, LF] @ ''---'' @ [LF]
                  @ ''*This content was automatically extracted from '' @ lp_name proj
                  @ ''. For the most up-to-date information, refer to the source project.*'' @ [LF];
                st2 = st1\<lparr>errorsEncountered :=
                         errorsEncountered st1 + brokenLinks w (lf_content file) (lp_path proj)\<rparr>;
                frontmatterYaml =
                  join [LF] (map (\<lambda>(key, value). key @ '': '' @ [CHR 0x22] @ toStr value @ [CHR 0x22])
                               (ownEntries enhancedFrontmatter));
                finalContent = ''---'' @ [LF] @ frontmatterYaml @ [LF] @ ''---'' @ [LF, LF]
                  @ lf_content file @ attribution
            in if writable w outputPath
               then (Inr (Some \<lparr>pf_file = file,
                                 pf_outputPath = relative (cwd w) (opt_outputDir opts) outputPath,
                                 pf_enhancedFrontmatter = enhancedFrontmatter\<rparr>),
                     st2\<lparr>writes := writes st2 @ [WriteFile outputPath finalContent]\<rparr>)
               else (Inl (FsError outputPath), st2)))"

fun processFiles ::
    "world \<Rightarrow> options \<Rightarrow> legacyProject \<Rightarrow> string \<Rightarrow> legacyFile list \<Rightarrow> scanner
       \<Rightarrow> processedFile list \<times> scanner" where
  \<comment> \<open>the loop of \<open>processProject\<close> over the files that are not code\<close>
  "processFiles w opts proj outputDir [] st = ([], st)"
| "processFiles w opts proj outputDir (file # rest) st =
     (case processDocumentationFile w opts file proj outputDir st of
        (Inr (Some processed), st1) \<Rightarrow>
          (let (done, st2) = processFiles w opts proj outputDir rest st1
           in (processed # done, st2))
      | (Inr None, st1) \<Rightarrow> processFiles w opts proj outputDir rest st1
      | (Inl err, st1) \<Rightarrow> processFiles w opts proj outputDir rest (logError st1))"

definition projectIndexContent ::
    "legacyProject \<Rightarrow> processedFile list \<Rightarrow> string \<Rightarrow> string \<Rightarrow> string" where
  \<comment> \<open>the template of \<open>generateProjectIndex\<close>; the clock is read for the date of the
      frontmatter (\<open>now1\<close>) and again for the last line (\<open>now2\<close>)\<close>
  "projectIndexContent proj processedFiles now1 now2 =
     unlines
       [''---'',
        ''title: '' @ [CHR 0x22] @ lp_displayName proj @ [CHR 0x22],
        ''description: '' @ [CHR 0x22] @ lp_description proj @ [CHR 0x22],
        ''category: '' @ [CHR 0x22] @ ''project-overview'' @ [CHR 0x22],
        ''project: '' @ [CHR 0x22] @ lp_name proj @ [CHR 0x22],
        ''version: '' @ [CHR 0x22] @ lp_version proj @ [CHR 0x22],
        ''lastUpdated: '' @ [CHR 0x22] @ today now1 @ [CHR 0x22],
        ''---'',
        [],
        ''# '' @ lp_displayName proj,
        [],
        lp_description proj,
        [],
        ''## Overview'',
        [],
        ''This project is part of the LostMind AI ecosystem and falls under the **''
          @ lp_category proj @ ''** category.'',
        [],
        ''## Available Documentation'',
        [],
        join [LF] (map (\<lambda>file. ''- ['' @ lf_title (pf_file file) @ ''](./''
                              @ basenameExt (pf_outputPath file) ''.mdx'' @ '')'') processedFiles),
        [],
        ''## Project Information'',
        [],
        ''- **Version**: '' @ lp_version proj,
        ''- **Category**: '' @ lp_category proj,
        ''- **Priority**: '' @ digits (lp_priority proj),
        ''- **Files Processed**: '' @ digits (length processedFiles),
        [],
        ''## Dependencies'',
        [],
        (if lp_dependencies proj \<noteq> []
         then join [LF] (map (\<lambda>(name, version). ''- '' @ name @ '': '' @ version)
                           (lp_dependencies proj))
         else ''No dependencies found.''),
        [],
        ''---'',
        ''*This index was automatically generated. Last updated: '' @ now2 @ ''*'',
        []]"

definition generateProjectIndex ::
    "world \<Rightarrow> legacyProject \<Rightarrow> processedFile list \<Rightarrow> string \<Rightarrow> scanner
       \<Rightarrow> (jsError + unit) \<times> scanner" where
  "generateProjectIndex w proj processedFiles outputDir st =
     (let indexPath = joinPath [outputDir, ''index.mdx''];
          (now1, st1) = readClock w st;
          (now2, st2) = readClock w st1;
          content = projectIndexContent proj processedFiles now1 now2
      in if writable w indexPath
         then (Inr (), st2\<lparr>writes := writes st2 @ [WriteFile indexPath content]\<rparr>)
         else (Inl (FsError indexPath), st2))"

definition processProject ::
    "world \<Rightarrow> options \<Rightarrow> legacyProject \<Rightarrow> scanner \<Rightarrow> (jsError + unit) \<times> scanner" where
  \<comment> \<open>the directory is made and the index written whatever the options say\<close>
  "processProject w opts proj st =
     (let outputDir = joinPath [opt_outputDir opts, lp_name proj]
      in if \<not> writable w outputDir then (Inl (FsError outputDir), st)
         else (let st1 = st\<lparr>writes := writes st @ [Mkdir outputDir]\<rparr>;
                   (processedFiles, st2) =
                     processFiles w opts proj outputDir
                       (filter (\<lambda>f. lf_classification f \<noteq> ''code'') (lp_files proj)) st1
               in case generateProjectIndex w proj processedFiles outputDir st2 of
                    (Inl err, st3) \<Rightarrow> (Inl err, st3)
                  | (Inr _, st3) \<Rightarrow>
                      (Inr (),
                       addProject (lp_name proj)
                         (map (\<lambda>file. \<lparr>n_title = JStr (lf_title (pf_file file)),
                                        n_path = JStr (pf_outputPath file),
                                        n_category = lf_classification (pf_file file)\<rparr>)
                            processedFiles)
                         st3)))"

fun discoverAll ::
    "(string \<Rightarrow> scanner \<Rightarrow> legacyProject list \<times> scanner) \<Rightarrow> world \<Rightarrow> string list \<Rightarrow> scanner
       \<Rightarrow> legacyProject list \<times> scanner" where
  \<comment> \<open>the first loop of the legacy \<open>scan\<close>: every base path that is a non-empty string and
      exists is scanned\<close>
  "discoverAll discover w [] st = ([], st)"
| "discoverAll discover w (basePath # rest) st =
     (if basePath \<noteq> [] \<and> pathExists w basePath
      then (let (projects, st1) = discover basePath st;
                (more, st2) = discoverAll discover w rest st1
            in (projects @ more, st2))
      else discoverAll discover w rest st)"

fun processAllLegacy ::
    "world \<Rightarrow> options \<Rightarrow> legacyProject list \<Rightarrow> scanner \<Rightarrow> (jsError + unit) \<times> scanner" where
  "processAllLegacy w opts [] st = (Inr (), st)"
| "processAllLegacy w opts (proj # rest) st =
     (case processProject w opts proj st of
        (Inl err, st1) \<Rightarrow> (Inl err, st1)
      | (Inr _, st1) \<Rightarrow> processAllLegacy w opts rest st1)"

definition categoryCounts :: "string list \<Rightarrow> (string \<times> nat) list" where
  \<comment> \<open>\<open>getCategoryBreakdown\<close> on the categories of the projects, counted from the first
      to the last\<close>
  "categoryCounts categories = foldl countCategory [] categories"

definition generateSummaryLegacy ::
    "world \<Rightarrow> options \<Rightarrow> legacyProject list \<Rightarrow> scanner \<Rightarrow> (jsError + unit) \<times> scanner" where
  "generateSummaryLegacy w opts projects st =
     (let summaryPath = joinPath [opt_outputDir opts, ''../project-summary.json''];
          (generatedAt, st1) = readClock w st
      in if writable w summaryPath
         then (Inr (),
               st1\<lparr>writes := writes st1
                  @ [WriteSummary summaryPath generatedAt (length projects)
                       (ownEntries (categoryCounts (map lp_category projects)))]\<rparr>)
         else (Inl (FsError summaryPath), st1))"

definition scanLegacy ::
    "(string \<Rightarrow> scanner \<Rightarrow> legacyProject list \<times> scanner) \<Rightarrow> world \<Rightarrow> options \<Rightarrow> string list
       \<Rightarrow> scanner \<Rightarrow> (jsError + legacyProject list) \<times> scanner" where
  \<comment> \<open>the legacy \<open>scan\<close>; \<open>opt_dryRun\<close> is read nowhere\<close>
  "scanLegacy discover w opts basePaths st =
     (let (allProjects, st1) = discoverAll discover w basePaths st;
          st2 = st1\<lparr>projectsFound := length allProjects\<rparr>
      in case processAllLegacy w opts allProjects st2 of
           (Inl err, st3) \<Rightarrow> (Inl err, st3)
         | (Inr _, st3) \<Rightarrow>
             (case save w (joinPath [opt_outputDir opts, ''../navigation.json'']) st3 of
                (Inl err, st4) \<Rightarrow> (Inl err, st4)
              | (Inr _, st4) \<Rightarrow>
                  (case generateSummaryLegacy w opts allProjects st4 of
                     (Inl err, st5) \<Rightarrow> (Inl err, st5)
                   | (Inr _, st5) \<Rightarrow> (Inr allProjects, st5))))"

definition mainLegacy ::
    "(string \<Rightarrow> scanner \<Rightarrow> legacyProject list \<times> scanner) \<Rightarrow> world \<Rightarrow> string list
       \<Rightarrow> string list \<Rightarrow> nat \<times> scanner" where
  \<comment> \<open>the legacy \<open>main\<close> on the base paths of \<open>CONFIG\<close> (the \<open>--base-path\<close> argument or the
      configured ones) and the arguments\<close>
  "mainLegacy discover w basePaths args =
     (case scanLegacy discover w (parseOptions args) basePaths newScanner of
        (Inl err, st) \<Rightarrow> (1, st)
      | (Inr _, st) \<Rightarrow> (0, st))"

definition exampleLegacyProject :: legacyProject where
  "exampleLegacyProject =
     \<lparr>lp_name = ''p1'', lp_path = ''/tmp/p1'', lp_displayName = ''P1'',
      lp_description = ''A sample project.'', lp_version = ''1.0.0'',
      lp_category = ''miscellaneous'', lp_priority = 55, lp_files = [], lp_dependencies = []\<rparr>"

section \<open>DocumentationValidator\<close>

text \<open>
  The validator reads the written corpus through \<open>disk\<close> and never writes. Three things
  it calls belong to the runtime and to a library and are taken as parameters: the
  \<open>glob\<close> package, \<open>JSON.parse\<close> and \<open>JSON.stringify\<close>.
\<close>

datatype json =
    JNull
  | JBool bool
  | JNumber int
  | JString string
  | JArray "json list"
  | JObject "(string \<times> json) list"

record runtime =
  globMdx :: "string \<Rightarrow> string list"
    \<comment> \<open>\<open>glob('**/*.mdx', { cwd })\<close>: the matching paths, relative to \<open>cwd\<close>\<close>
  jsonParse :: "string \<Rightarrow> string + json"
    \<comment> \<open>\<open>JSON.parse\<close>: the value, or the message of the error it raises\<close>
  jsonStringify :: "json \<Rightarrow> string"

record validator =
  errors :: "string list"
  warnings :: "string list"

definition newValidator :: validator where
  "newValidator = \<lparr>errors = [], warnings = []\<rparr>"

definition quoted :: "string \<Rightarrow> string" where
  "quoted s = [CHR 0x22] @ s @ [CHR 0x22]"

definition readFile :: "world \<Rightarrow> string \<Rightarrow> string + string" where
  \<comment> \<open>\<open>fs.readFile(p, 'utf8')\<close>: the content, or the message of the error\<close>
  "readFile w p =
     (case disk w p of
        Some (File content sz mtime) \<Rightarrow> Inr content
      | Some Dir \<Rightarrow> Inl ''EISDIR: illegal operation on a directory, read''
      | None \<Rightarrow> Inl (''ENOENT: no such file or directory, open '' @ [CHR 0x27] @ p @ [CHR 0x27]))"

definition findFiles :: "runtime \<Rightarrow> string \<Rightarrow> string list" where
  \<comment> \<open>\<open>findFiles('**/*.mdx')\<close>\<close>
  "findFiles rt docsDir = map (\<lambda>file. joinPath [docsDir, file]) (globMdx rt docsDir)"

definition headingStartsWithDigit :: "string \<Rightarrow> bool" where
  \<comment> \<open>\<open>/^#+\s*\d/.test(line)\<close>\<close>
  "headingStartsWithDigit line =
     (case line of
        [] \<Rightarrow> False
      | c # cs \<Rightarrow>
          c = CHR ''#'' \<and>
          (case dropWhile isSpace (dropWhile (\<lambda>x. x = CHR ''#'') cs) of
             [] \<Rightarrow> False
           | d # _ \<Rightarrow> isDigit d))"

fun hasNumberedExpression :: "string \<Rightarrow> bool" where
  \<comment> \<open>\<open>/{[^}]*\d[^}]*}/.test(line)\<close>: the expression matches somewhere\<close>
  "hasNumberedExpression [] = False"
| "hasNumberedExpression (c # cs) = (numberedMatch (c # cs) \<noteq> None \<or> hasNumberedExpression cs)"

definition hasLinkShape :: "string \<Rightarrow> bool" where
  \<comment> \<open>\<open>/\[.*\]\(.*\)/.test(line)\<close>: the dot stops at a carriage return, so the brackets
      and parentheses must follow one another within one run free of it\<close>
  "hasLinkShape line =
     (\<exists>run \<in> set (splitChar (CHR 0x0D) line).
        case afterFirst (CHR ''['') run of
          None \<Rightarrow> False
        | Some r1 \<Rightarrow>
            (case splitOnFirst '']('' r1 of
               None \<Rightarrow> False
             | Some (_, r2) \<Rightarrow> CHR '')'' \<in> set r2))"

definition checkLine :: "string \<Rightarrow> nat \<Rightarrow> string \<Rightarrow> string list \<times> string list" where
  \<comment> \<open>the body of \<open>lines.forEach\<close> in \<open>checkMDXSyntax\<close>: the errors and the warnings of
      one line\<close>
  "checkLine filePath lineNum line =
     (let at = filePath @ '':'' @ digits lineNum;
          links = (if hasLinkShape line then allLinks 0 line else [])
      in ((if headingStartsWithDigit line
           then [at @ '' - Heading starts with number: '' @ quoted (trim line)] else [])
          @ concat (map (\<lambda>(text, url).
                if trim url = []
                then [at @ '' - Empty link URL: ['' @ text @ '']('' @ url @ '')''] else []) links),
          (if hasNumberedExpression line \<and> \<not> includesStr line ''```''
           then [at @ '' - Potential invalid JSX expression: '' @ quoted (trim line)] else [])
          @ concat (map (\<lambda>(text, url).
                if trim text = []
                then [at @ '' - Empty link text: ['' @ text @ '']('' @ url @ '')''] else []) links)))"

definition checkMDXSyntax :: "string \<Rightarrow> string \<Rightarrow> string list \<times> string list" where
  "checkMDXSyntax content filePath =
     (let lines = splitChar LF content;
          results = map (\<lambda>(index, line). checkLine filePath (index + 1) line)
                      (zip [0..<length lines] lines)
      in (concat (map fst results), concat (map snd results)))"

definition checkLinks :: "world \<Rightarrow> string \<Rightarrow> string \<Rightarrow> string list \<times> string list" where
  "checkLinks w content filePath =
     (let dir = dirname filePath
      in (concat (map (\<lambda>(text, url).
            if prefix ''http'' url \<or> prefix ''#'' url \<or> prefix ''mailto:'' url then []
            else if pathExists w (resolve (cwd w) [dir, url]) then []
            else [filePath @ '' - Broken link: ['' @ text @ '']('' @ url @ '')''])
           (allLinks 0 content)),
          []))"

function allImages :: "string \<Rightarrow> (string \<times> string) list" where
  \<comment> \<open>the matches of \<open>/!\[([^\]]*)\]\(([^)]*)\)/g\<close>\<close>
  "allImages [] = []"
| "allImages (c # cs) =
     (if c = CHR ''!''
      then (case linkMatch 0 cs of
              Some (alt, src, rest) \<Rightarrow> (alt, src) # allImages rest
            | None \<Rightarrow> allImages cs)
      else allImages cs)"
  by pat_completeness auto

termination allImages
proof (relation "measure length")
  show "wf (measure length)" by simp
next
  fix c cs x2 alt y src rest
  assume "c = CHR ''!''" "linkMatch 0 cs = Some x2" "(alt, y) = x2" "(src, rest) = y"
  then have "linkMatch 0 cs = Some (alt, src, rest)" by simp
  from linkMatch_length [OF this] show "(rest, c # cs) \<in> measure length" by simp
qed simp_all

declare allImages.simps [simp del]

definition checkImages :: "world \<Rightarrow> string \<Rightarrow> string \<Rightarrow> string list \<times> string list" where
  "checkImages w content filePath =
     (let dir = dirname filePath;
          local = filter (\<lambda>(alt, src). \<not> prefix ''http'' src) (allImages content)
      in (concat (map (\<lambda>(alt, src).
            if pathExists w (resolve (cwd w) [dir, src]) then []
            else [filePath @ '' - Missing image: !['' @ alt @ '']('' @ src @ '')'']) local),
          concat (map (\<lambda>(alt, src).
            if trim alt = [] then [filePath @ '' - Image missing alt text: '' @ src] else [])
            local)))"

definition checkFrontmatter :: "string \<Rightarrow> string \<Rightarrow> string list" where
  \<comment> \<open>the warnings; the function collects nothing else\<close>
  "checkFrontmatter content filePath =
     (case frontmatterBlock content of
        None \<Rightarrow> [filePath @ '' - Missing frontmatter'']
      | Some frontmatter \<Rightarrow>
          concat (map (\<lambda>field.
              if \<not> includesStr frontmatter (field @ '':'')
              then [filePath @ '' - Missing required frontmatter field: '' @ field] else [])
            [''title'', ''description''])
          @ concat (map (\<lambda>field.
              if \<not> includesStr frontmatter (field @ '':'')
              then [filePath @ '' - Missing recommended frontmatter field: '' @ field] else [])
            [''category'', ''tags'', ''lastUpdated'']))"

definition validateMDXSyntaxFile :: "world \<Rightarrow> string \<Rightarrow> validator \<Rightarrow> validator" where
  \<comment> \<open>the loop body of the validator's \<open>validateMDXSyntax\<close>\<close>
  "validateMDXSyntaxFile w file v =
     (case readFile w file of
        Inr content \<Rightarrow>
          (let (es, ws) = checkMDXSyntax content file
           in v\<lparr>errors := errors v @ es, warnings := warnings v @ ws\<rparr>)
      | Inl message \<Rightarrow> v\<lparr>errors := errors v @ [''Failed to read '' @ file @ '': '' @ message]\<rparr>)"

definition validateLinksFile :: "world \<Rightarrow> string \<Rightarrow> validator \<Rightarrow> validator" where
  "validateLinksFile w file v =
     (case readFile w file of
        Inr content \<Rightarrow>
          (let (es, ws) = checkLinks w content file
           in v\<lparr>errors := errors v @ es, warnings := warnings v @ ws\<rparr>)
      | Inl message \<Rightarrow>
          v\<lparr>errors := errors v @ [''Failed to validate links in '' @ file @ '': '' @ message]\<rparr>)"

definition validateImagesFile :: "world \<Rightarrow> string \<Rightarrow> validator \<Rightarrow> validator" where
  "validateImagesFile w file v =
     (case readFile w file of
        Inr content \<Rightarrow>
          (let (es, ws) = checkImages w content file
           in v\<lparr>errors := errors v @ es, warnings := warnings v @ ws\<rparr>)
      | Inl message \<Rightarrow>
          v\<lparr>errors := errors v @ [''Failed to validate images in '' @ file @ '': '' @ message]\<rparr>)"

definition validateFrontmatterFile :: "world \<Rightarrow> string \<Rightarrow> validator \<Rightarrow> validator" where
  \<comment> \<open>the loop body of \<open>validateFrontmatter\<close>: only warnings come out of the check\<close>
  "validateFrontmatterFile w file v =
     (case readFile w file of
        Inr content \<Rightarrow> v\<lparr>warnings := warnings v @ checkFrontmatter content file\<rparr>
      | Inl message \<Rightarrow>
          v\<lparr>errors := errors v
             @ [''Failed to validate frontmatter in '' @ file @ '': '' @ message]\<rparr>)"

definition forEachFile ::
    "(string \<Rightarrow> validator \<Rightarrow> validator) \<Rightarrow> string list \<Rightarrow> validator \<Rightarrow> validator" where
  \<comment> \<open>\<open>for (const file of mdxFiles)\<close>\<close>
  "forEachFile body files v = foldl (\<lambda>acc file. body file acc) v files"

definition validateMDXSyntaxFiles :: "runtime \<Rightarrow> world \<Rightarrow> string \<Rightarrow> validator \<Rightarrow> validator" where
  \<comment> \<open>the validator's \<open>validateMDXSyntax\<close>\<close>
  "validateMDXSyntaxFiles rt w docsDir v =
     forEachFile (validateMDXSyntaxFile w) (findFiles rt docsDir) v"

definition validateLinks :: "runtime \<Rightarrow> world \<Rightarrow> string \<Rightarrow> validator \<Rightarrow> validator" where
  "validateLinks rt w docsDir v = forEachFile (validateLinksFile w) (findFiles rt docsDir) v"

definition validateImages :: "runtime \<Rightarrow> world \<Rightarrow> string \<Rightarrow> validator \<Rightarrow> validator" where
  "validateImages rt w docsDir v = forEachFile (validateImagesFile w) (findFiles rt docsDir) v"

definition validateFrontmatter :: "runtime \<Rightarrow> world \<Rightarrow> string \<Rightarrow> validator \<Rightarrow> validator" where
  "validateFrontmatter rt w docsDir v =
     forEachFile (validateFrontmatterFile w) (findFiles rt docsDir) v"

fun jsonTruthy :: "json option \<Rightarrow> bool" where
  \<comment> \<open>whether a property value counts as true; a missing property is \<open>undefined\<close>\<close>
  "jsonTruthy None = False"
| "jsonTruthy (Some JNull) = False"
| "jsonTruthy (Some (JBool b)) = b"
| "jsonTruthy (Some (JNumber n)) = (n \<noteq> 0)"
| "jsonTruthy (Some (JString s)) = (s \<noteq> [])"
| "jsonTruthy (Some (JArray _)) = True"
| "jsonTruthy (Some (JObject _)) = True"

fun getField :: "json \<Rightarrow> string \<Rightarrow> string + json option" where
  \<comment> \<open>\<open>value[key]\<close> for the keys \<open>navigation\<close>, \<open>group\<close> and \<open>pages\<close>, which no primitive and no
      array has; reading a property of \<open>null\<close> raises\<close>
  "getField JNull key = Inl (''Cannot read properties of null (reading '' @ [CHR 0x27] @ key @ [CHR 0x27] @ '')'')"
| "getField (JObject kvs) key = Inr (map_of (rev kvs) key)"
| "getField _ key = Inr None"

fun showInt :: "int \<Rightarrow> string" where
  "showInt i = (if i < 0 then ''-'' @ digits (nat (- i)) else digits (nat i))"

fun pageText :: "json \<Rightarrow> string" where
  \<comment> \<open>a page inside a template literal; a page is a string in a well-formed file\<close>
  "pageText JNull = ''null''"
| "pageText (JBool b) = (if b then ''true'' else ''false'')"
| "pageText (JNumber n) = showInt n"
| "pageText (JString s) = s"
| "pageText (JArray xs) = join '','' (map (\<lambda>x. if x = JNull then [] else pageText x) xs)"
| "pageText (JObject _) = ''[object Object]''"

definition checkPages :: "world \<Rightarrow> string \<Rightarrow> json list \<Rightarrow> string list" where
  \<comment> \<open>the errors of the inner loop over the pages of a group\<close>
  "checkPages w docsDir pages =
     concat (map (\<lambda>page.
        if pathExists w (joinPath [docsDir, pageText page @ ''.mdx'']) then []
        else [''Navigation references missing file: '' @ pageText page @ ''.mdx'']) pages)"

fun checkGroups ::
    "runtime \<Rightarrow> world \<Rightarrow> string \<Rightarrow> json list \<Rightarrow> validator \<Rightarrow> (string + unit) \<times> validator" where
  \<comment> \<open>the loop over the groups; an exception leaves the loop with its message\<close>
  "checkGroups rt w docsDir [] v = (Inr (), v)"
| "checkGroups rt w docsDir (g # gs) v =
     (case getField g ''group'' of
        Inl message \<Rightarrow> (Inl message, v)
      | Inr gname \<Rightarrow>
          (case getField g ''pages'' of
             Inl message \<Rightarrow> (Inl message, v)
           | Inr gpages \<Rightarrow>
               if \<not> jsonTruthy gname \<or> \<not> jsonTruthy gpages
               then checkGroups rt w docsDir gs
                      (v\<lparr>warnings := warnings v
                          @ [''Navigation group missing required fields: '' @ jsonStringify rt g]\<rparr>)
               else (case gpages of
                       Some (JArray pages) \<Rightarrow>
                         checkGroups rt w docsDir gs
                           (v\<lparr>errors := errors v @ checkPages w docsDir pages\<rparr>)
                     | Some (JString s) \<Rightarrow>
                         checkGroups rt w docsDir gs
                           (v\<lparr>errors := errors v
                               @ checkPages w docsDir (map (\<lambda>c. JString [c]) s)\<rparr>)
                     | _ \<Rightarrow> (Inl ''group.pages is not iterable'', v))))"

definition validateNavigation :: "runtime \<Rightarrow> world \<Rightarrow> string \<Rightarrow> validator \<Rightarrow> validator" where
  \<comment> \<open>whatever is raised inside becomes one warning\<close>
  "validateNavigation rt w docsDir v =
     (let navPath = joinPath [docsDir, ''../navigation.json''];
          failed = (\<lambda>message v'.
            v'\<lparr>warnings := warnings v' @ [''Could not validate navigation: '' @ message]\<rparr>)
      in case readFile w navPath of
           Inl message \<Rightarrow> failed message v
         | Inr navContent \<Rightarrow>
             (case jsonParse rt navContent of
                Inl message \<Rightarrow> failed message v
              | Inr parsed \<Rightarrow>
                  (case getField parsed ''navigation'' of
                     Inl message \<Rightarrow> failed message v
                   | Inr (Some (JArray groups)) \<Rightarrow>
                       (case checkGroups rt w docsDir groups v of
                          (Inl message, v') \<Rightarrow> failed message v'
                        | (Inr _, v') \<Rightarrow> v')
                   | Inr _ \<Rightarrow>
                       v\<lparr>errors := errors v @ [''Invalid navigation.json structure'']\<rparr>)))"

record validationResult =
  success :: bool
  r_errors :: "string list"
  r_warnings :: "string list"

definition validate :: "runtime \<Rightarrow> world \<Rightarrow> string \<Rightarrow> validationResult" where
  \<comment> \<open>the five passes in their order on a fresh validator\<close>
  "validate rt w docsDir =
     (let v = validateNavigation rt w docsDir
                (validateFrontmatter rt w docsDir
                  (validateImages rt w docsDir
                    (validateLinks rt w docsDir
                      (validateMDXSyntaxFiles rt w docsDir newValidator))))
      in \<lparr>success = (length (errors v) = 0), r_errors = errors v, r_warnings = warnings v\<rparr>)"

definition docsDirOption :: "string list \<Rightarrow> string" where
  \<comment> \<open>\<open>args.find(arg => arg.startsWith('--docs-dir='))?.split('=')[1] || './apps/docs/projects'\<close>\<close>
  "docsDirOption args =
     (case List.find (\<lambda>arg. prefix ''--docs-dir='' arg) args of
        None \<Rightarrow> ''./apps/docs/projects''
      | Some arg \<Rightarrow>
          (let given = splitChar (CHR ''='') arg ! 1
           in if given = [] then ''./apps/docs/projects'' else given))"

definition mainValidator :: "runtime \<Rightarrow> world \<Rightarrow> string list \<Rightarrow> nat" where
  \<comment> \<open>the validator's \<open>main\<close>: \<open>process.exit(result.success ? 0 : 1)\<close>\<close>
  "mainValidator rt w args = (if success (validate rt w (docsDirOption args)) then 0 else 1)"

text \<open>A corpus of one document whose frontmatter has no title.\<close>

definition untitledDoc :: string where
  "untitledDoc =
     unlines [''---'', ''description: '' @ quoted ''d'', ''category: '' @ quoted ''c'',
              ''tags: '' @ quoted ''t'', ''lastUpdated: '' @ quoted ''2025-09-21'', ''---'', [],
              ''# Guide'']"

text \<open>A document whose frontmatter has a subtitle and no title.\<close>

definition subtitledDoc :: string where
  "subtitledDoc =
     unlines [''---'', ''subtitle: '' @ quoted ''s'', ''description: '' @ quoted ''d'',
              ''category: '' @ quoted ''c'', ''tags: '' @ quoted ''t'',
              ''lastUpdated: '' @ quoted ''2025-09-21'', ''---'', [], ''# Guide'']"

definition untitledWorld :: world where
  "untitledWorld =
     \<lparr>disk = (\<lambda>p. if p = ''apps/docs/projects/p1/readme.mdx''
                    then Some (File untitledDoc (length untitledDoc) 0) else None),
      writable = (\<lambda>_. True), clock = (\<lambda>_. ''2025-09-21T10:11:12.123Z''),
      cwd = ''/home/user/repo''\<rparr>"

definition untitledRuntime :: runtime where
  "untitledRuntime =
     \<lparr>globMdx = (\<lambda>_. [''p1/readme.mdx'']),
      jsonParse = (\<lambda>_. Inl ''Unexpected end of JSON input''),
      jsonStringify = (\<lambda>_. [])\<rparr>"

section \<open>A running example\<close>

text \<open>
  One configured project \<open>p1\<close> at \<open>/tmp/p1\<close> whose only file is a README; the clock stands
  still.
\<close>

definition p1Config :: projectConfig where
  "p1Config =
     \<lparr>cfg_id = ''p1'', cfg_displayName = ''P1'', cfg_sourcePath = ''/tmp/p1'',
      cfg_outputPath = ''./apps/docs/projects/p1'', cfg_category = ''core-platforms'',
      cfg_priority = 1, cfg_documentTypes = [''readme'', ''architecture''],
      cfg_scanStrategy = ''selective'',
      cfg_primaryFiles = Some [''README.md'', ''docs/**/*.md''], cfg_skipPatterns = Some []\<rparr>"

definition p1Disk :: "string \<Rightarrow> node option" where
  "p1Disk p =
     (if p = ''/tmp/p1'' then Some Dir
      else if p = ''/tmp/p1/README.md''
      then Some (File (''# P1'' @ [LF, LF] @ ''A sample project.'') 23 0)
      else None)"

definition p1World :: world where
  "p1World =
     \<lparr>disk = p1Disk, writable = (\<lambda>_. True), clock = (\<lambda>_. ''2025-09-21T10:11:12.123Z''),
      cwd = ''/home/user/repo''\<rparr>"

text \<open>A disk where a file is literally named \<open>*.md\<close>, and the record of the README.\<close>

definition starDisk :: "string \<Rightarrow> node option" where
  "starDisk p =
     (if p = ''/tmp/p1'' then Some Dir
      else if p = ''/tmp/p1/*.md'' then Some (File ''# notes'' 7 0)
      else None)"

definition doctypeDisk :: "string \<Rightarrow> node option" where
  \<comment> \<open>the README is a doctype declaration that is never closed\<close>
  "doctypeDisk p =
     (if p = ''/tmp/p1'' then Some Dir
      else if p = ''/tmp/p1/README.md'' then Some (File ''<!DOCTYPE html'' 14 0)
      else None)"

definition p1Readme :: sourceFile where
  "p1Readme =
     \<lparr>f_path = ''/tmp/p1/README.md'', f_relativePath = ''README.md'',
      f_content = ''# P1'' @ [LF, LF] @ ''A sample project.'',
      f_classification = ''readme'', f_size = 23, f_modified = 0\<rparr>"

definition dryRunOptions :: options where
  "dryRunOptions = parseOptions [''--dry-run'']"

section \<open>Braces after sanitizing\<close>

fun openDepth :: "nat \<Rightarrow> string \<Rightarrow> nat" where
  \<comment> \<open>the number of opening braces still waiting for a partner, each closing brace
      closing the nearest open one before it\<close>
  "openDepth d [] = d"
| "openDepth d (c # cs) =
     openDepth (if c = CHR ''{'' then Suc d else if c = CHR ''}'' then d - 1 else d) cs"

definition unmatchedOpens :: "string \<Rightarrow> nat" where
  "unmatchedOpens s = openDepth 0 s"

fun closesOnLine :: "string \<Rightarrow> bool" where
  \<comment> \<open>a closing brace occurs before the line ends\<close>
  "closesOnLine [] = False"
| "closesOnLine (c # cs) =
     (if c = CHR ''}'' then True else if isLineTerm c then False else closesOnLine cs)"

fun opensClosed :: "string \<Rightarrow> bool" where
  \<comment> \<open>every opening brace is followed by a closing brace on its line\<close>
  "opensClosed [] = True"
| "opensClosed (c # cs) = ((if c = CHR ''{'' then closesOnLine cs else True) \<and> opensClosed cs)"

lemma lineTerm_not_brace: "isLineTerm c \<Longrightarrow> c \<noteq> CHR ''}'' \<and> c \<noteq> CHR ''{''"
  by (auto simp: isLineTerm_def)

lemma space_not_brace: "isSpace c \<Longrightarrow> c \<noteq> CHR ''}'' \<and> c \<noteq> CHR ''{''"
  by (auto simp: isSpace_def)

lemma closesOnLine_append: "closesOnLine a \<Longrightarrow> closesOnLine (a @ b)"
  by (induction a) (auto split: if_splits)

lemma closesOnLine_has_close: "closesOnLine a \<Longrightarrow> CHR ''}'' \<in> set a"
  by (induction a) (auto split: if_splits)

lemma closesOnLine_cut_lineTerm:
  "isLineTerm t \<Longrightarrow> closesOnLine (a @ t # b) \<Longrightarrow> closesOnLine a"
  by (induction a) (auto split: if_splits dest: lineTerm_not_brace)

lemma closesOnLine_cut_plain:
  "CHR ''}'' \<notin> set w \<Longrightarrow> closesOnLine (a @ w) \<Longrightarrow> closesOnLine a"
  by (induction a) (auto split: if_splits dest: closesOnLine_has_close)

lemma opensClosed_append: "opensClosed a \<Longrightarrow> opensClosed b \<Longrightarrow> opensClosed (a @ b)"
  by (induction a) (auto simp: closesOnLine_append)

lemma opensClosed_suffix: "opensClosed (a @ b) \<Longrightarrow> opensClosed b"
  by (induction a) auto

lemma opensClosed_cut_lineTerm:
  "isLineTerm t \<Longrightarrow> opensClosed (a @ t # b) \<Longrightarrow> opensClosed a \<and> opensClosed b"
  by (induction a) (auto dest: closesOnLine_cut_lineTerm)

lemma opensClosed_cut_plain:
  "CHR ''}'' \<notin> set w \<Longrightarrow> opensClosed (a @ w) \<Longrightarrow> opensClosed a"
  by (induction a) (auto dest: closesOnLine_cut_plain)

lemma opensClosed_no_open: "CHR ''{'' \<notin> set a \<Longrightarrow> opensClosed a"
  by (induction a) auto



lemma closesOnLine_segment:
  "\<forall>x \<in> set seg. \<not> isLineTerm x \<Longrightarrow> closesOnLine (seg @ CHR ''}'' # r)"
  by (induction seg) auto

lemma dropWhile_not_close_shape:
  "length (takeWhile (\<lambda>x. x \<noteq> c) cs) \<noteq> length cs \<Longrightarrow>
   \<exists>r. cs = takeWhile (\<lambda>x. x \<noteq> c) cs @ c # r"
  by (induction cs) auto

lemma unclosedMatch_None_shape:
  assumes "unclosedMatch (CHR ''{'' # cs) = None"
  shows "\<exists>seg r. cs = seg @ CHR ''}'' # r \<and> (\<forall>x \<in> set seg. x \<noteq> CHR ''}'' \<and> \<not> isLineTerm x)"
proof -
  let ?seg = "takeWhile (\<lambda>x. x \<noteq> CHR ''}'') cs"
  from assms have len: "length ?seg \<noteq> length cs" and nolt: "\<forall>x \<in> set ?seg. \<not> isLineTerm x"
    by (auto simp: unclosedMatch_def Let_def split: if_splits)
  from dropWhile_not_close_shape [OF len] obtain r where "cs = ?seg @ CHR ''}'' # r" ..
  moreover have "\<forall>x \<in> set ?seg. x \<noteq> CHR ''}''"
    by (auto dest: set_takeWhileD)
  ultimately show ?thesis using nolt by blast
qed


lemma unclosedMatch_segment:
  assumes "\<forall>x \<in> set seg. x \<noteq> CHR ''}'' \<and> \<not> isLineTerm x"
  shows "unclosedMatch (c # seg @ CHR ''}'' # r) = None"
proof -
  have tw: "takeWhile (\<lambda>x. x \<noteq> CHR ''}'') (seg @ CHR ''}'' # r) = seg"
    using assms by (simp add: takeWhile_append2)
  show ?thesis
    unfolding unclosedMatch_def Let_def using assms by (simp add: tw)
qed

lemma removeUnclosed_None: "unclosedMatch (c # cs) = None \<Longrightarrow>
   removeUnclosed (c # cs) = c # removeUnclosed cs"
  by simp

lemma removeUnclosed_Some: "unclosedMatch (c # cs) = Some rest \<Longrightarrow>
   removeUnclosed (c # cs) = removeUnclosed rest"
  by simp

lemma removeUnclosed_segment:
  "\<forall>x \<in> set seg. x \<noteq> CHR ''}'' \<and> \<not> isLineTerm x \<Longrightarrow>
   removeUnclosed (seg @ CHR ''}'' # r) = seg @ CHR ''}'' # removeUnclosed r"
proof (induction seg)
  case Nil
  have "unclosedMatch (CHR ''}'' # r) = None" by (simp add: unclosedMatch_def)
  then show ?case by (simp only: append_Nil removeUnclosed_None)
next
  case (Cons c seg)
  then have n: "unclosedMatch (c # seg @ CHR ''}'' # r) = None"
    by (intro unclosedMatch_segment) simp
  from Cons have ih: "removeUnclosed (seg @ CHR ''}'' # r) = seg @ CHR ''}'' # removeUnclosed r"
    by simp
  show ?case by (simp only: append_Cons removeUnclosed_None [OF n] ih)
qed


lemma opensClosed_removeUnclosed: "opensClosed (removeUnclosed s)"
proof (induction s rule: removeUnclosed.induct)
  case 1
  show ?case by simp
next
  case (2 c cs)
  show ?case
  proof (cases "unclosedMatch (c # cs)")
    case (Some rest)
    from 2(2) [OF Some] show ?thesis
      by (simp only: removeUnclosed_Some [OF Some])
  next
    case None
    from 2(1) [OF None] have ih: "opensClosed (removeUnclosed cs)" .
    have "closesOnLine (removeUnclosed cs)" if "c = CHR ''{''"
    proof -
      from None that obtain seg r where
        cs: "cs = seg @ CHR ''}'' # r" and seg: "\<forall>x \<in> set seg. x \<noteq> CHR ''}'' \<and> \<not> isLineTerm x"
        using unclosedMatch_None_shape by blast
      from seg have "removeUnclosed cs = seg @ CHR ''}'' # removeUnclosed r"
        unfolding cs by (rule removeUnclosed_segment)
      moreover from seg have "closesOnLine (seg @ CHR ''}'' # removeUnclosed r)"
        by (intro closesOnLine_segment) simp
      ultimately show ?thesis by simp
    qed
    with ih show ?thesis
      by (simp only: removeUnclosed_None [OF None] opensClosed.simps) simp
  qed
qed


lemma isLineTerm_LF: "isLineTerm LF"
  by (simp add: isLineTerm_def LF_def)

lemma splitOnFirst_shape: "splitOnFirst sub s = Some (a, b) \<Longrightarrow> s = a @ sub @ b"
proof (induction s arbitrary: a)
  case Nil
  then show ?case by (simp split: if_splits)
next
  case (Cons c cs)
  show ?case
  proof (cases "prefix sub (c # cs)")
    case True
    with Cons.prems have "a = []" and "b = drop (length sub) (c # cs)" by simp_all
    moreover from True obtain t where "c # cs = sub @ t" by (auto simp: prefix_def)
    ultimately show ?thesis by simp
  next
    case False
    with Cons.prems obtain a' where "splitOnFirst sub cs = Some (a', b)" and "a = c # a'"
      by auto
    with Cons.IH show ?thesis by simp
  qed
qed

lemma firstSome_Some: "firstSome f xs = Some y \<Longrightarrow> \<exists>x \<in> set xs. f x = Some y"
  by (induction xs) (auto split: option.splits)

lemma fmMatchHere_shape:
  assumes "fmMatchHere s = Some (yaml, rest)"
  shows "\<exists>pre. s = pre @ LF # yaml @ LF # ''---'' @ rest"
proof -
  let ?r = "drop 3 s"
  let ?w = "takeWhile isSpace ?r"
  from assms have pre: "prefix ''---'' s" by (simp add: fmMatchHere_def split: if_splits)
  from assms obtain j where j: "j < length ?w" "?w ! j = LF"
    and sp: "splitOnFirst (LF # ''---'') (drop (Suc j) ?r) = Some (yaml, rest)"
    by (auto simp: fmMatchHere_def Let_def split: if_splits dest!: firstSome_Some)
  have jl: "j < length ?r" using j(1) length_takeWhile_le [of isSpace ?r] by linarith
  have "?r ! j = LF" using j by (simp add: takeWhile_nth)
  with jl have "?r = take j ?r @ LF # drop (Suc j) ?r"
    by (metis id_take_nth_drop)
  moreover from splitOnFirst_shape [OF sp] have "drop (Suc j) ?r = yaml @ (LF # ''---'') @ rest" .
  ultimately have "?r = take j ?r @ LF # yaml @ LF # ''---'' @ rest" by simp
  moreover have "s = take 3 s @ ?r" by simp
  ultimately have "s = (take 3 s @ take j ?r) @ LF # yaml @ LF # ''---'' @ rest"
    by (metis append.assoc)
  then show ?thesis by blast
qed

lemma splitChar_nonempty: "splitChar x s \<noteq> []"
  by (induction s) (auto simp: Let_def)

lemma closesOnLine_hd_split: "closesOnLine cs \<Longrightarrow> closesOnLine (hd (splitChar LF cs))"
  by (induction cs) (auto simp: Let_def LF_def isLineTerm_def split: if_splits)

lemma opensClosed_split: "opensClosed s \<Longrightarrow> \<forall>l \<in> set (splitChar LF s). opensClosed l"
proof (induction s)
  case Nil
  show ?case by simp
next
  case (Cons c cs)
  then have ih: "\<forall>l \<in> set (splitChar LF cs). opensClosed l" by simp
  obtain h t where ht: "splitChar LF cs = h # t"
    using splitChar_nonempty [of LF cs] by (cases "splitChar LF cs") auto
  show ?case
  proof (cases "c = LF")
    case True
    with ih show ?thesis by (simp add: Let_def)
  next
    case False
    have "opensClosed (c # h)"
    proof -
      from ih ht have "opensClosed h" by simp
      moreover have "closesOnLine h" if "c = CHR ''{''"
        using that Cons.prems closesOnLine_hd_split [of cs] ht by simp
      ultimately show ?thesis by simp
    qed
    with ih ht False show ?thesis by (simp add: Let_def)
  qed
qed

lemma opensClosed_join: "\<forall>l \<in> set ls. opensClosed l \<Longrightarrow> opensClosed (join [LF] ls)"
proof (induction ls)
  case Nil
  show ?case by simp
next
  case (Cons l ls)
  have lf: "opensClosed [LF]" by (simp add: LF_def)
  show ?case
  proof (cases ls)
    case Nil
    with Cons.prems show ?thesis by simp
  next
    case (Cons m ms)
    with Cons.IH Cons.prems have "opensClosed (join [LF] ls)" by simp
    then have "opensClosed ([LF] @ join [LF] ls)"
      using lf by (rule opensClosed_append [rotated])
    moreover from Cons.prems have "opensClosed l" by simp
    ultimately have "opensClosed (l @ [LF] @ join [LF] ls)"
      by (rule opensClosed_append [rotated])
    with Cons show ?thesis by simp
  qed
qed

lemma opensClosed_cleanYaml: "opensClosed yaml \<Longrightarrow> opensClosed (cleanYaml yaml)"
  unfolding cleanYaml_def by (rule opensClosed_join) (auto dest: opensClosed_split)


lemma closesOnLine_fmReplace: "closesOnLine cs \<Longrightarrow> closesOnLine (fmReplace False cs)"
  by (induction cs) (auto split: if_splits)

lemma opensClosed_frontmatter:
  assumes m: "fmMatchHere s = Some (yaml, rest)" and s: "opensClosed s"
  shows "opensClosed (''---'' @ [LF] @ cleanYaml yaml @ [LF] @ ''---'' @ rest)"
proof -
  from fmMatchHere_shape [OF m] obtain pre where "s = pre @ LF # yaml @ LF # ''---'' @ rest" ..
  with s have "opensClosed (pre @ LF # (yaml @ LF # ''---'' @ rest))" by simp
  then have "opensClosed (yaml @ LF # (''---'' @ rest))"
    using opensClosed_cut_lineTerm [OF isLineTerm_LF] by blast
  then have y: "opensClosed yaml" and r: "opensClosed (''---'' @ rest)"
    using opensClosed_cut_lineTerm [OF isLineTerm_LF] by blast+
  have lf: "opensClosed [LF]" by (simp add: LF_def)
  have d: "opensClosed ''---''" by simp
  from lf r have "opensClosed ([LF] @ ''---'' @ rest)"
    by (rule opensClosed_append)
  with opensClosed_cleanYaml [OF y] have "opensClosed (cleanYaml yaml @ [LF] @ ''---'' @ rest)"
    by (rule opensClosed_append)
  with lf have "opensClosed ([LF] @ cleanYaml yaml @ [LF] @ ''---'' @ rest)"
    by (rule opensClosed_append)
  with d show ?thesis
    by (rule opensClosed_append)
qed

lemma opensClosed_fmReplace: "opensClosed s \<Longrightarrow> opensClosed (fmReplace b s)"
proof (induction s arbitrary: b)
  case Nil
  show ?case by simp
next
  case (Cons c cs)
  show ?case
  proof (cases "if b then fmMatchHere (c # cs) else None")
    case (Some p)
    obtain yaml rest where p: "p = (yaml, rest)" by (cases p)
    from Some p have m: "fmMatchHere (c # cs) = Some (yaml, rest)"
      by (simp split: if_splits)
    have "fmReplace b (c # cs) = ''---'' @ [LF] @ cleanYaml yaml @ [LF] @ ''---'' @ rest"
      using Some p by simp
    with opensClosed_frontmatter [OF m Cons.prems] show ?thesis by simp
  next
    case None
    then have eq: "fmReplace b (c # cs) = c # fmReplace (isLineTerm c) cs" by simp
    from Cons have ih: "opensClosed (fmReplace (isLineTerm c) cs)" by simp
    have "closesOnLine (fmReplace (isLineTerm c) cs)" if "c = CHR ''{''"
    proof -
      from that have "\<not> isLineTerm c" by (simp add: isLineTerm_def)
      moreover from that Cons.prems have "closesOnLine cs" by simp
      ultimately show ?thesis by (simp add: closesOnLine_fmReplace)
    qed
    with ih show ?thesis unfolding eq by simp
  qed
qed

lemma opensClosed_trim: "opensClosed s \<Longrightarrow> opensClosed (trim s)"
proof -
  assume a: "opensClosed s"
  let ?t = "trimStart s"
  have "s = takeWhile isSpace s @ ?t" by (simp add: trimStart_def)
  with a have t: "opensClosed ?t" by (metis opensClosed_suffix)
  let ?w = "rev (takeWhile isSpace (rev ?t))"
  have "trimEnd ?t @ ?w = rev (takeWhile isSpace (rev ?t) @ dropWhile isSpace (rev ?t))"
    by (simp only: trimEnd_def rev_append)
  also have "\<dots> = ?t" by (simp only: takeWhile_dropWhile_id rev_rev_ident)
  finally have "?t = trimEnd ?t @ ?w" by (rule sym)
  moreover have "CHR ''}'' \<notin> set ?w"
    by (auto dest!: set_takeWhileD space_not_brace)
  ultimately have "opensClosed (trimEnd ?t)"
    using t opensClosed_cut_plain by metis
  then show ?thesis by (simp add: trim_def)
qed

lemma opensClosed_sanitize: "opensClosed (sanitizeMDXContent s)"
  unfolding sanitizeMDXContent_def
  by (simp add: opensClosed_trim opensClosed_fmReplace opensClosed_removeUnclosed)

lemma closesOnLine_index:
  "closesOnLine t \<Longrightarrow>
   \<exists>j < length t. t ! j = CHR ''}'' \<and> \<not> (\<exists>k < j. isLineTerm (t ! k))"
proof (induction t)
  case Nil
  then show ?case by simp
next
  case (Cons c t)
  show ?case
  proof (cases "c = CHR ''}''")
    case True
    then have "(c # t) ! 0 = CHR ''}'' \<and> \<not> (\<exists>k < 0. isLineTerm ((c # t) ! k))" by simp
    then show ?thesis by blast
  next
    case False
    with Cons.prems have nl: "\<not> isLineTerm c" and "closesOnLine t" by (auto split: if_splits)
    with Cons.IH obtain j where j: "j < length t" "t ! j = CHR ''}''"
      "\<not> (\<exists>k < j. isLineTerm (t ! k))" by blast
    have "\<not> (\<exists>k < Suc j. isLineTerm ((c # t) ! k))"
    proof
      assume "\<exists>k < Suc j. isLineTerm ((c # t) ! k)"
      then obtain k where k: "k < Suc j" "isLineTerm ((c # t) ! k)" by blast
      show False
      proof (cases k)
        case 0
        with k nl show False by simp
      next
        case (Suc k')
        with k j(3) show False by auto
      qed
    qed
    with j have "Suc j < length (c # t) \<and> (c # t) ! Suc j = CHR ''}'' \<and>
        \<not> (\<exists>k < Suc j. isLineTerm ((c # t) ! k))" by simp
    then show ?thesis by blast
  qed
qed

lemma opensClosed_at: "opensClosed s \<Longrightarrow> i < length s \<Longrightarrow> s ! i = CHR ''{'' \<Longrightarrow>
   closesOnLine (drop (Suc i) s)"
proof (induction s arbitrary: i)
  case Nil
  then show ?case by simp
next
  case (Cons c cs)
  show ?case
  proof (cases i)
    case 0
    with Cons.prems show ?thesis by simp
  next
    case (Suc i')
    with Cons show ?thesis by simp
  qed
qed

text \<open>
  C1 (as stated): in the sanitized body every opening brace is matched by a later closing
  brace, so the body is balanced. This fails: the input \<open>{ { }\<close> is returned unchanged,
  and one of its two opening braces has no partner.
\<close>

theorem sanitize_balanced_counterexample:
  "sanitizeMDXContent ''{ { }'' = ''{ { }'' \<and>
   length (filter (\<lambda>c. c = CHR ''{'') (sanitizeMDXContent ''{ { }'')) = 2 \<and>
   length (filter (\<lambda>c. c = CHR ''}'') (sanitizeMDXContent ''{ { }'')) = 1 \<and>
   unmatchedOpens (sanitizeMDXContent ''{ { }'') = 1"
  by code_simp

text \<open>
  C1 (amended): in the sanitized body every opening brace is followed, before its line
  ends, by a closing brace: an opening brace with no closing brace after it on its line
  has been removed.
\<close>

theorem sanitize_open_closed_on_line:
  assumes "i < length (sanitizeMDXContent s)" and "sanitizeMDXContent s ! i = CHR ''{''"
  shows "\<exists>j. i < j \<and> j < length (sanitizeMDXContent s) \<and> sanitizeMDXContent s ! j = CHR ''}'' \<and>
             \<not> (\<exists>k. i < k \<and> k < j \<and> isLineTerm (sanitizeMDXContent s ! k))"
proof -
  let ?out = "sanitizeMDXContent s"
  let ?t = "drop (Suc i) ?out"
  from opensClosed_at [OF opensClosed_sanitize assms] have "closesOnLine ?t" .
  from closesOnLine_index [OF this] obtain j where
    j: "j < length ?t" "?t ! j = CHR ''}''" "\<not> (\<exists>k < j. isLineTerm (?t ! k))" by blast
  let ?j = "Suc i + j"
  from j(1) have b: "?j < length ?out" by simp
  from j(2) b have c: "?out ! ?j = CHR ''}''" by simp
  have "\<not> (\<exists>k. i < k \<and> k < ?j \<and> isLineTerm (?out ! k))"
  proof
    assume "\<exists>k. i < k \<and> k < ?j \<and> isLineTerm (?out ! k)"
    then obtain k where k: "i < k" "k < ?j" "isLineTerm (?out ! k)" by blast
    define k' where "k' = k - Suc i"
    from k have k'j: "k' < j" and kk: "k = Suc i + k'" by (simp_all add: k'_def)
    from k(3) b k'j have "isLineTerm (?t ! k')" unfolding kk by simp
    with j(3) k'j show False by blast
  qed
  with b c have "i < ?j \<and> ?j < length ?out \<and> ?out ! ?j = CHR ''}'' \<and>
      \<not> (\<exists>k. i < k \<and> k < ?j \<and> isLineTerm (?out ! k))" by simp
  then show ?thesis by blast
qed

theorem sanitize_open_closed_on_line_witness:
  "2 < length (sanitizeMDXContent ''a {x} b { c'') \<and>
   sanitizeMDXContent ''a {x} b { c'' ! 2 = CHR ''{'' \<and>
   (\<exists>j. 2 < j \<and> j < length (sanitizeMDXContent ''a {x} b { c'') \<and>
        sanitizeMDXContent ''a {x} b { c'' ! j = CHR ''}'')"
proof -
  have v: "sanitizeMDXContent ''a {x} b { c'' = ''a {x} b''"
    by code_simp
  have h1: "2 < length (sanitizeMDXContent ''a {x} b { c'')"
    unfolding v by simp
  have h2: "sanitizeMDXContent ''a {x} b { c'' ! 2 = CHR ''{''"
    unfolding v by simp
  from sanitize_open_closed_on_line [OF h1 h2] h1 h2 show ?thesis
    by blast
qed

section \<open>Navigation order\<close>

text \<open>
  C9 (as stated): a label missing from the order table gets an order strictly greater
  than the order of every label in the table. This fails: the unmapped label \<open>code\<close>
  gets 50, while the mapped label \<open>misc\<close> has 99.
\<close>

theorem getNavigationOrder_sentinel_counterexample:
  "map_of orderTable ''code'' = None \<and> map_of orderTable ''misc'' = Some 99 \<and>
   getNavigationOrder ''code'' = Order 50 \<and> getNavigationOrder ''misc'' = Order 99 \<and>
   \<not> (99 < (50::nat))"
  by (simp add: getNavigationOrder_def orderTable_def objectPrototypeKeys_def)

text \<open>
  C9 (amended): a label that is neither in the order table nor the name of a property
  inherited from \<open>Object.prototype\<close> gets the order 50, which is strictly greater than the
  order of every label in the table other than \<open>misc\<close>.
\<close>

theorem getNavigationOrder_unmapped:
  assumes "map_of orderTable t = None" and "t \<notin> set objectPrototypeKeys"
  shows "getNavigationOrder t = Order 50 \<and>
         (\<forall>m n. map_of orderTable m = Some n \<longrightarrow> m \<noteq> ''misc'' \<longrightarrow> n < 50)"
proof
  show "getNavigationOrder t = Order 50"
    using assms by (simp add: getNavigationOrder_def)
next
  have "n < 50" if "(m, n) \<in> set orderTable" and "m \<noteq> ''misc''" for m n
    using that unfolding orderTable_def by auto
  then show "\<forall>m n. map_of orderTable m = Some n \<longrightarrow> m \<noteq> ''misc'' \<longrightarrow> n < 50"
    by (blast dest: map_of_SomeD)
qed

theorem getNavigationOrder_unmapped_witness:
  "map_of orderTable ''code'' = None \<and> ''code'' \<notin> set objectPrototypeKeys \<and>
   map_of orderTable ''architecture'' = Some 5 \<and> ''architecture'' \<noteq> ''misc'' \<and>
   getNavigationOrder ''code'' = Order 50 \<and> (5::nat) < 50"
proof -
  have h1: "map_of orderTable ''code'' = None"
    by (simp add: orderTable_def)
  have h2: "''code'' \<notin> set objectPrototypeKeys"
    by (simp add: objectPrototypeKeys_def)
  have h3: "map_of orderTable ''architecture'' = Some 5"
    by (simp add: orderTable_def)
  from getNavigationOrder_unmapped [OF h1 h2] h1 h2 h3 show ?thesis
    by simp
qed

section \<open>The project field of the frontmatter\<close>

lemma includesStr_middle: "includesStr (a @ s @ b) s"
proof (induction a)
  case Nil
  show ?case by (cases "s @ b") (auto simp: prefix_def intro: exI [of _ b])
next
  case (Cons c a)
  then show ?case by simp
qed

lemma getProperty_id: "getProperty (mkProject c) ''id'' = JUndefined"
  by (simp add: getProperty_def)


text \<open>
  C3: the frontmatter of a generated document should carry the id of the project it was
  generated for. The code reads \<open>project.id\<close>, and the project object that \<open>scan\<close> builds
  stores the id under \<open>name\<close> and has no \<open>id\<close>: whatever the configured id is, the
  frontmatter holds the line \<open>project: "undefined"\<close>.
\<close>

theorem frontmatter_project_undefined:
  "includesStr (generateCleanFrontmatter (mkProject c) documentType source now)
     ([LF] @ ''project: '' @ [CHR 0x22] @ ''undefined'' @ [CHR 0x22])"
proof -
  let ?l = "''project: '' @ [CHR 0x22] @ ''undefined'' @ [CHR 0x22]"
  obtain a b where
    "generateCleanFrontmatter (mkProject c) documentType source now = a @ ([LF] @ ?l) @ b"
  proof (cases source)
    case None
    then show ?thesis
      using that [of _ "[LF] @ ''---''"]
      by (simp add: generateCleanFrontmatter_def getProperty_id)
  next
    case (Some src)
    then show ?thesis
      using that [of _ "[LF] @ ''sourceFile: '' @ [CHR 0x22] @ f_relativePath src @ [CHR 0x22]
                          @ [LF] @ ''---''"]
      by (simp add: generateCleanFrontmatter_def getProperty_id)
  qed
  then show ?thesis by (simp only: includesStr_middle)
qed


text \<open>The frontmatter of the readme of \<open>p1\<close>, whose id is \<open>p1\<close>.\<close>

lemma p1_frontmatter:
  "generateCleanFrontmatter (mkProject p1Config) ''readme'' None ''2025-09-21T10:11:12.123Z'' =
     unlines [''---'',
              ''title: '' @ [CHR 0x22] @ ''P1 - Readme'' @ [CHR 0x22],
              ''description: '' @ [CHR 0x22] @ ''readme documentation for P1'' @ [CHR 0x22],
              ''category: '' @ [CHR 0x22] @ ''core-platforms'' @ [CHR 0x22],
              ''lastUpdated: '' @ [CHR 0x22] @ ''2025-09-21'' @ [CHR 0x22],
              ''project: '' @ [CHR 0x22] @ ''undefined'' @ [CHR 0x22],
              ''---'']"
  by code_simp

section \<open>One document for each declared type\<close>

lemma finishDocument_ok:
  assumes "validateMDXSyntax (generateCleanFrontmatter proj documentType src (clock w (tick st))
             @ [LF, LF] @ body)"
      and "opt_dryRun opts \<or> writable w (joinPath [outputDir, documentType @ ''.mdx''])"
  shows "\<exists>doc st'. finishDocument w opts proj documentType outputDir body src st
            = (Inr (Some doc), st') \<and> d_type doc = documentType \<and>
          writes st' = writes st @
            (if opt_dryRun opts then []
             else [WriteFile (joinPath [outputDir, documentType @ ''.mdx''])
                     (generateCleanFrontmatter proj documentType src (clock w (tick st))
                        @ [LF, LF] @ body)])"
  using assms by (auto simp: finishDocument_def readClock_def Let_def)


lemma generateSelectiveDocument_unknown:
  assumes "documentType \<notin> {''introduction'', ''readme'', ''architecture'', ''development''}"
  shows "generateSelectiveDocument w opts proj files documentType outputDir st
           = (Inl (TypeError ''this.logger.warn is not a function''), st)"
  using assms by (simp add: generateSelectiveDocument_def)

text \<open>
  C4 (as stated): every document type declared for a project yields exactly one output
  document. This fails twice: a project that declares the type \<open>api\<close> gets no document
  for it, and a project whose README is an unterminated doctype declaration gets no
  \<open>readme\<close> document, the check before writing rejecting it.
\<close>

theorem undeclared_type_counterexample:
  "p_documentTypes (mkProject (p1Config\<lparr>cfg_documentTypes := [''api'']\<rparr>)) = [''api''] \<and>
   fst (processSelectiveProject p1World dryRunOptions
          (mkProject (p1Config\<lparr>cfg_documentTypes := [''api'']\<rparr>)) newScanner) = Inr [] \<and>
   p_documentTypes (mkProject (p1Config\<lparr>cfg_documentTypes := [''readme'']\<rparr>)) = [''readme''] \<and>
   map f_content (scanSelectiveProjectFiles (p1World\<lparr>disk := doctypeDisk\<rparr>)
          (mkProject (p1Config\<lparr>cfg_documentTypes := [''readme'']\<rparr>))) = [''<!DOCTYPE html''] \<and>
   fst (processSelectiveProject (p1World\<lparr>disk := doctypeDisk\<rparr>) dryRunOptions
          (mkProject (p1Config\<lparr>cfg_documentTypes := [''readme'']\<rparr>)) newScanner) = Inr []"
  by code_simp

text \<open>
  C4 (amended): for a declared type among \<open>introduction\<close>, \<open>readme\<close>, \<open>architecture\<close> and
  \<open>development\<close> whose assembled document passes the check before writing (and, outside
  a dry run, can be written), the generator yields exactly one document, written once.
  For \<open>readme\<close>, \<open>architecture\<close> and \<open>development\<close> its body is the sanitized content of
  the first matching source file, and the template of the type when no file matches;
  for \<open>introduction\<close> it is the introduction text.
\<close>

theorem generateSelectiveDocument_one_output:
  assumes t: "documentType \<in> {''introduction'', ''readme'', ''architecture'', ''development''}"
      and body: "body =
                   (if documentType = ''introduction''
                    then generateIntroductionContent proj files (clock w (tick st))
                    else (case sourceFor documentType files of
                            Some src \<Rightarrow> sanitizeMDXContent (f_content src)
                          | None \<Rightarrow> templateFor documentType proj))"
      and final: "finalContent =
                    generateCleanFrontmatter proj documentType (sourceFor documentType files)
                      (clock w (if documentType = ''introduction'' then Suc (tick st) else tick st))
                    @ [LF, LF] @ body"
      and ok: "validateMDXSyntax finalContent"
      and wr: "opt_dryRun opts \<or> writable w (joinPath [outputDir, documentType @ ''.mdx''])"
  shows "\<exists>doc st'. generateSelectiveDocument w opts proj files documentType outputDir st
            = (Inr (Some doc), st') \<and> d_type doc = documentType \<and>
          writes st' = writes st @
            (if opt_dryRun opts then []
             else [WriteFile (joinPath [outputDir, documentType @ ''.mdx'']) finalContent])"
proof -
  let ?st = "if documentType = ''introduction'' then st\<lparr>tick := Suc (tick st)\<rparr> else st"
  have eq: "generateSelectiveDocument w opts proj files documentType outputDir st =
        finishDocument w opts proj documentType outputDir body (sourceFor documentType files) ?st"
  proof -
    from t consider (i) "documentType = ''introduction''" | (r) "documentType = ''readme''"
      | (a) "documentType = ''architecture''" | (d) "documentType = ''development''" by blast
    then show ?thesis
    proof cases
      case i
      show ?thesis unfolding body i
        by (simp add: generateSelectiveDocument_def sourceFor_def readClock_def)
    next
      case r
      show ?thesis unfolding body r
        by (simp add: generateSelectiveDocument_def sourceFor_def templateFor_def Let_def
            split: option.split)
    next
      case a
      show ?thesis unfolding body a
        by (simp add: generateSelectiveDocument_def sourceFor_def templateFor_def Let_def
            split: option.split)
    next
      case d
      show ?thesis unfolding body d
        by (simp add: generateSelectiveDocument_def sourceFor_def templateFor_def Let_def
            split: option.split)
    qed
  qed
  have tk: "tick ?st = (if documentType = ''introduction'' then Suc (tick st) else tick st)"
    by simp
  have wt: "writes ?st = writes st"
    by simp
  from ok have ok': "validateMDXSyntax
      (generateCleanFrontmatter proj documentType (sourceFor documentType files)
         (clock w (tick ?st)) @ [LF, LF] @ body)"
    unfolding final tk .
  from finishDocument_ok [OF ok' wr] show ?thesis
    unfolding eq final tk wt .
qed

theorem generateSelectiveDocument_one_output_witness:
  "''readme'' \<in> {''introduction'', ''readme'', ''architecture'', ''development''} \<and>
   sourceFor ''readme'' (scanSelectiveProjectFiles p1World (mkProject p1Config)) = Some p1Readme \<and>
   validateMDXSyntax
     (generateCleanFrontmatter (mkProject p1Config) ''readme'' (Some p1Readme)
        ''2025-09-21T10:11:12.123Z''
      @ [LF, LF] @ sanitizeMDXContent (f_content p1Readme)) \<and>
   writable p1World (joinPath [''./apps/docs/projects/p1'', ''readme'' @ ''.mdx'']) \<and>
   \<not> opt_dryRun (parseOptions []) \<and>
   (\<exists>doc st'. generateSelectiveDocument p1World (parseOptions []) (mkProject p1Config)
        (scanSelectiveProjectFiles p1World (mkProject p1Config)) ''readme''
        ''./apps/docs/projects/p1'' newScanner = (Inr (Some doc), st') \<and>
      d_type doc = ''readme'' \<and>
      writes st' =
        [WriteFile (joinPath [''./apps/docs/projects/p1'', ''readme'' @ ''.mdx''])
           (generateCleanFrontmatter (mkProject p1Config) ''readme'' (Some p1Readme)
              ''2025-09-21T10:11:12.123Z''
            @ [LF, LF] @ sanitizeMDXContent (f_content p1Readme))])"
proof -
  let ?files = "scanSelectiveProjectFiles p1World (mkProject p1Config)"
  let ?body = "sanitizeMDXContent (f_content p1Readme)"
  let ?final = "generateCleanFrontmatter (mkProject p1Config) ''readme'' (Some p1Readme)
        ''2025-09-21T10:11:12.123Z'' @ [LF, LF] @ ?body"
  have src: "sourceFor ''readme'' ?files = Some p1Readme"
    by code_simp
  have ck: "clock p1World (tick newScanner) = ''2025-09-21T10:11:12.123Z''"
    by (simp add: p1World_def)
  have h1: "''readme'' \<in> {''introduction'', ''readme'', ''architecture'', ''development''}"
    by simp
  have h2: "?body = (if ''readme'' = ''introduction''
                     then generateIntroductionContent (mkProject p1Config) ?files
                            (clock p1World (tick newScanner))
                     else (case sourceFor ''readme'' ?files of
                             Some src \<Rightarrow> sanitizeMDXContent (f_content src)
                           | None \<Rightarrow> templateFor ''readme'' (mkProject p1Config)))"
    by (simp add: src)
  have h3: "?final = generateCleanFrontmatter (mkProject p1Config) ''readme''
                (sourceFor ''readme'' ?files)
                (clock p1World (if ''readme'' = ''introduction'' then Suc (tick newScanner)
                                else tick newScanner)) @ [LF, LF] @ ?body"
    by (simp add: src ck)
  have h4: "validateMDXSyntax ?final"
    by code_simp
  have w: "writable p1World (joinPath [''./apps/docs/projects/p1'', ''readme'' @ ''.mdx''])"
    by (simp add: p1World_def)
  have nd: "\<not> opt_dryRun (parseOptions [])"
    by (simp add: parseOptions_def)
  from generateSelectiveDocument_one_output [OF h1 h2 h3 h4 disjI2 [OF w], of "parseOptions []"]
    src h4 w nd
  show ?thesis by (simp add: newScanner_def)
qed

section \<open>Patterns and classification in the selective scan\<close>

lemma scanPattern_member:
  assumes "f \<in> set (scanPattern w proj pattern)"
  shows "f_path f = joinPath [p_path proj, pattern] \<and>
         disk w (f_path f) = Some (File (f_content f) (f_size f) (f_modified f)) \<and>
         f_classification f = classify (f_path f) (f_content f)"
proof -
  let ?p = "joinPath [p_path proj, pattern]"
  from assms obtain c s m where d: "disk w ?p = Some (File c s m)"
    and f: "f = \<lparr>f_path = ?p, f_relativePath = relative (cwd w) (p_path proj) ?p,
                 f_content = c, f_classification = classify ?p c, f_size = s, f_modified = m\<rparr>"
    by (auto simp: scanPattern_def glob_def Let_def split: if_splits option.splits node.splits)
  show ?thesis unfolding f using d by simp
qed

lemma scanSelectiveProjectFiles_member:
  "f \<in> set (scanSelectiveProjectFiles w proj) \<Longrightarrow>
   \<exists>pattern \<in> set (p_primaryFiles proj). f \<in> set (scanPattern w proj pattern)"
  by (auto simp: scanSelectiveProjectFiles_def)

text \<open>
  C10 (as stated): through a pattern that contains a wildcard the selective scanner finds
  no files. This fails where a file bears the pattern as its literal name: the pattern
  \<open>*.md\<close> finds the file \<open>/tmp/p1/*.md\<close>.
\<close>

theorem wildcard_literal_counterexample:
  "CHR ''*'' \<in> set ''*.md'' \<and>
   map f_path (scanPattern (p1World\<lparr>disk := starDisk\<rparr>) (mkProject p1Config) ''*.md'')
     = [''/tmp/p1/*.md'']"
  by code_simp

text \<open>
  C10 (amended): \<open>glob\<close> returns the pattern itself when it exists as a path and the empty
  list otherwise; so through any pattern, wildcard or not, the selective scanner finds
  only the file whose path is the pattern joined to the project path, read literally,
  and nothing when no such path exists. Patterns are never expanded.
\<close>

theorem scanPattern_literal:
  "glob w g = (if pathExists w g then [g] else []) \<and>
   (\<forall>f \<in> set (scanPattern w proj pattern).
      f_path f = joinPath [p_path proj, pattern] \<and>
      disk w (f_path f) = Some (File (f_content f) (f_size f) (f_modified f))) \<and>
   (\<not> pathExists w (joinPath [p_path proj, pattern]) \<longrightarrow> scanPattern w proj pattern = [])"
  by (auto simp: glob_def dest: scanPattern_member) (simp add: scanPattern_def glob_def)

theorem scanPattern_literal_witness:
  "\<not> pathExists p1World (joinPath [p_path (mkProject p1Config), ''docs/**/*.md'']) \<and>
   scanPattern p1World (mkProject p1Config) ''docs/**/*.md'' = [] \<and>
   map f_path (scanPattern p1World (mkProject p1Config) ''README.md'') = [''/tmp/p1/README.md''] \<and>
   joinPath [p_path (mkProject p1Config), ''README.md''] = ''/tmp/p1/README.md''"
proof -
  have h: "\<not> pathExists p1World (joinPath [p_path (mkProject p1Config), ''docs/**/*.md''])"
    by code_simp
  have r: "map f_path (scanPattern p1World (mkProject p1Config) ''README.md'')
             = [''/tmp/p1/README.md'']"
    by code_simp
  have j: "joinPath [p_path (mkProject p1Config), ''README.md''] = ''/tmp/p1/README.md''"
    by code_simp
  from scanPattern_literal [of p1World _ "mkProject p1Config" "''docs/**/*.md''"] h r j
  show ?thesis by blast
qed

text \<open>
  C8: the label of a file is a function of its path and content alone. Whatever the
  world, the project and the other files, the classification recorded for a scanned
  file is \<open>classify\<close> of its path and content, so two files with the same path and
  content get the same label.
\<close>

theorem classification_from_path_and_content:
  assumes "f \<in> set (scanSelectiveProjectFiles w proj)"
      and "f' \<in> set (scanSelectiveProjectFiles w' proj')"
      and "f_path f = f_path f'" and "f_content f = f_content f'"
  shows "f_classification f = classify (f_path f) (f_content f) \<and>
         f_classification f' = f_classification f"
proof -
  from assms(1) have "f_classification f = classify (f_path f) (f_content f)"
    by (blast dest: scanSelectiveProjectFiles_member scanPattern_member)
  moreover from assms(2) have "f_classification f' = classify (f_path f') (f_content f')"
    by (blast dest: scanSelectiveProjectFiles_member scanPattern_member)
  ultimately show ?thesis using assms(3,4) by simp
qed

theorem classification_from_path_and_content_witness:
  "p1Readme \<in> set (scanSelectiveProjectFiles p1World (mkProject p1Config)) \<and>
   p1Readme \<in> set (scanSelectiveProjectFiles (p1World\<lparr>cwd := ''/''\<rparr>)
                     (mkProject (p1Config\<lparr>cfg_id := ''other''\<rparr>))) \<and>
   f_classification p1Readme = classify (f_path p1Readme) (f_content p1Readme)"
proof -
  have a: "scanSelectiveProjectFiles p1World (mkProject p1Config) = [p1Readme]"
    by code_simp
  have b: "scanSelectiveProjectFiles (p1World\<lparr>cwd := ''/''\<rparr>)
             (mkProject (p1Config\<lparr>cfg_id := ''other''\<rparr>)) = [p1Readme]"
    by code_simp
  have h1: "p1Readme \<in> set (scanSelectiveProjectFiles p1World (mkProject p1Config))"
    unfolding a by simp
  have h2: "p1Readme \<in> set (scanSelectiveProjectFiles (p1World\<lparr>cwd := ''/''\<rparr>)
                     (mkProject (p1Config\<lparr>cfg_id := ''other''\<rparr>)))"
    unfolding b by simp
  from classification_from_path_and_content [OF h1 h2 refl refl] h1 h2
  show ?thesis by simp
qed

section \<open>The same date, the same documents\<close>

lemma generateCleanFrontmatter_today:
  "today now = today now' \<Longrightarrow>
   generateCleanFrontmatter proj t src now = generateCleanFrontmatter proj t src now'"
  by (simp add: generateCleanFrontmatter_def)

lemma generateIntroductionContent_today:
  "today now = today now' \<Longrightarrow>
   generateIntroductionContent proj files now = generateIntroductionContent proj files now'"
  by (simp add: generateIntroductionContent_def)

lemma finishDocument_same_date:
  assumes "\<forall>n. today (c' n) = today (clock w n)"
  shows "finishDocument (w\<lparr>clock := c'\<rparr>) opts proj t outputDir content src st
           = finishDocument w opts proj t outputDir content src st"
proof -
  have "generateCleanFrontmatter proj t src (c' (tick st))
          = generateCleanFrontmatter proj t src (clock w (tick st))"
    using assms by (intro generateCleanFrontmatter_today) simp
  then show ?thesis
    by (simp add: finishDocument_def readClock_def Let_def)
qed

lemma generateSelectiveDocument_same_date:
  assumes "\<forall>n. today (c' n) = today (clock w n)"
  shows "generateSelectiveDocument (w\<lparr>clock := c'\<rparr>) opts proj files t outputDir st
           = generateSelectiveDocument w opts proj files t outputDir st"
proof -
  have "generateIntroductionContent proj files (c' (tick st))
          = generateIntroductionContent proj files (clock w (tick st))"
    using assms by (intro generateIntroductionContent_today) simp
  then show ?thesis
    unfolding generateSelectiveDocument_def
    by (simp add: finishDocument_same_date [OF assms] readClock_def Let_def)
qed

lemma generateAll_same_date:
  assumes "\<forall>n. today (c' n) = today (clock w n)"
  shows "generateAll (w\<lparr>clock := c'\<rparr>) opts proj files outputDir ts st
           = generateAll w opts proj files outputDir ts st"
  by (induction ts arbitrary: st)
     (simp_all add: generateSelectiveDocument_same_date [OF assms]
        split: prod.split sum.split option.split)

lemma scanPattern_clock: "scanPattern (w\<lparr>clock := c'\<rparr>) proj pattern = scanPattern w proj pattern"
  by (simp add: scanPattern_def glob_def pathExists_def Let_def split: option.split node.split)

lemma scanSelectiveProjectFiles_clock:
  "scanSelectiveProjectFiles (w\<lparr>clock := c'\<rparr>) proj = scanSelectiveProjectFiles w proj"
proof -
  have "scanPattern (w\<lparr>clock := c'\<rparr>) proj = scanPattern w proj"
    by (rule ext) (rule scanPattern_clock)
  then show ?thesis by (simp only: scanSelectiveProjectFiles_def)
qed

text \<open>
  C7 (as stated): two generations from the same inputs on the same calendar date write
  the same documents, the date being the only thing that varies with time. This fails
  for the project index of the legacy pipeline, whose last line holds the full time of
  its generation: two runs on 2025-09-21 at different times write different indexes.
\<close>

theorem project_index_timestamp_counterexample:
  "today ''2025-09-21T10:11:12.123Z'' = today ''2025-09-21T23:59:59.999Z'' \<and>
   writes (snd (processProject p1World (parseOptions []) exampleLegacyProject newScanner)) \<noteq>
   writes (snd (processProject (p1World\<lparr>clock := (\<lambda>_. ''2025-09-21T23:59:59.999Z'')\<rparr>)
                  (parseOptions []) exampleLegacyProject newScanner))"
  by code_simp

text \<open>
  C7 (amended): in the selective pipeline the date is the only thing that varies with
  time. Under two clocks whose readings agree on the calendar date, processing a project
  gives the same documents, the same writes and the same final state.
\<close>

theorem processSelectiveProject_same_date:
  assumes "\<forall>n. today (c' n) = today (clock w n)"
  shows "processSelectiveProject (w\<lparr>clock := c'\<rparr>) opts proj st
           = processSelectiveProject w opts proj st"
  unfolding processSelectiveProject_def Let_def
  by (simp only: generateAll_same_date [OF assms] scanSelectiveProjectFiles_clock)
     (simp del: generateAll.simps)

theorem processSelectiveProject_same_date_witness:
  "(\<forall>n. today ((\<lambda>_. ''2025-09-21T23:59:59.999Z'') n) = today (clock p1World n)) \<and>
   processSelectiveProject (p1World\<lparr>clock := (\<lambda>_. ''2025-09-21T23:59:59.999Z'')\<rparr>)
       (parseOptions []) (mkProject p1Config) newScanner
     = processSelectiveProject p1World (parseOptions []) (mkProject p1Config) newScanner"
proof -
  have a: "today ''2025-09-21T23:59:59.999Z'' = ''2025-09-21''" by code_simp
  have b: "today ''2025-09-21T10:11:12.123Z'' = ''2025-09-21''" by code_simp
  have h: "\<forall>n. today ((\<lambda>_. ''2025-09-21T23:59:59.999Z'') n) = today (clock p1World n)"
    by (simp add: p1World_def a b)
  from processSelectiveProject_same_date [OF h] h show ?thesis by blast
qed

section \<open>Dry runs\<close>

text \<open>In the selective pipeline a dry run writes nothing.\<close>

lemma finishDocument_dryRun:
  "opt_dryRun opts \<Longrightarrow>
   writes (snd (finishDocument w opts proj t outputDir content src st)) = writes st"
  by (simp add: finishDocument_def readClock_def logError_def Let_def)

lemma generateSelectiveDocument_dryRun:
  "opt_dryRun opts \<Longrightarrow>
   writes (snd (generateSelectiveDocument w opts proj files t outputDir st)) = writes st"
  by (simp add: generateSelectiveDocument_def finishDocument_dryRun readClock_def Let_def)

lemma generateAll_dryRun:
  "opt_dryRun opts \<Longrightarrow>
   writes (snd (generateAll w opts proj files outputDir ts st)) = writes st"
proof (induction ts arbitrary: st)
  case Nil
  show ?case by simp
next
  case (Cons t ts)
  obtain r st1 where g: "generateSelectiveDocument w opts proj files t outputDir st = (r, st1)"
    by (cases "generateSelectiveDocument w opts proj files t outputDir st")
  with generateSelectiveDocument_dryRun [OF Cons.prems, of w proj files t outputDir st]
  have w1: "writes st1 = writes st" by simp
  have w2: "writes (logError st1) = writes st" by (simp add: logError_def w1)
  show ?case
    using Cons.IH [OF Cons.prems, of st1] Cons.IH [OF Cons.prems, of "logError st1"] w1 w2
    by (auto simp: g split: sum.split option.split prod.split)
qed

lemma processSelectiveProject_dryRun:
  "opt_dryRun opts \<Longrightarrow> writes (snd (processSelectiveProject w opts proj st)) = writes st"
  using generateAll_dryRun [of opts w proj "scanSelectiveProjectFiles w proj" "p_outputPath proj"
      "p_documentTypes proj" st]
  by (auto simp: processSelectiveProject_def addProject_def Let_def split: prod.split)

lemma processAll_dryRun:
  "opt_dryRun opts \<Longrightarrow> writes (snd (processAll w opts ps st)) = writes st"
proof (induction ps arbitrary: st)
  case Nil
  show ?case by simp
next
  case (Cons p ps)
  obtain r st1 where g: "processSelectiveProject w opts p st = (r, st1)"
    by (cases "processSelectiveProject w opts p st")
  with processSelectiveProject_dryRun [OF Cons.prems, of w p st]
  have w1: "writes st1 = writes st" by simp
  show ?case
    using Cons.IH [OF Cons.prems, of st1] w1
    by (simp add: g split: sum.split)
qed

lemma selectProjects_writes: "writes (snd (selectProjects w cs st)) = writes st"
proof (induction cs arbitrary: st)
  case Nil
  show ?case by simp
next
  case (Cons c cs)
  from Cons [of st] Cons [of "logError st"] show ?case
    by (auto simp: logError_def split: prod.split)
qed

lemma scan_dryRun:
  assumes "opt_dryRun opts"
  shows "writes (snd (scan w opts cs st)) = writes st"
proof -
  obtain ps st1 where s: "selectProjects w cs st = (ps, st1)"
    by (cases "selectProjects w cs st")
  with selectProjects_writes [of w cs st] have w1: "writes st1 = writes st" by simp
  let ?st2 = "st1\<lparr>projectsFound := length ps\<rparr>"
  obtain r st3 where p: "processAll w opts ps ?st2 = (r, st3)"
    by (cases "processAll w opts ps ?st2")
  with processAll_dryRun [OF assms, of w ps ?st2] w1 have "writes st3 = writes st" by simp
  then show ?thesis
    using assms by (simp add: scan_def s p split: sum.split)
qed

text \<open>
  C6: a run started with \<open>--dry-run\<close> should write nothing. The legacy \<open>scan\<close> never
  reads the flag: even with no base path to scan, and so no project, the run writes the
  navigation file and the summary file.
\<close>

theorem legacy_dry_run_writes:
  "opt_dryRun (parseOptions [''--dry-run'']) \<and>
   mainLegacy discover p1World [] [''--dry-run''] =
     (0, newScanner\<lparr>writes :=
           [WriteNavigation ''apps/docs/navigation.json'' [],
            WriteSummary ''apps/docs/project-summary.json'' ''2025-09-21T10:11:12.123Z'' 0 []],
         tick := 1\<rparr>)"
proof -
  have j1: "joinPath [''./apps/docs/projects'', ''../navigation.json''] = ''apps/docs/navigation.json''"
    by code_simp
  have j2: "joinPath [''./apps/docs/projects'', ''../project-summary.json'']
              = ''apps/docs/project-summary.json''"
    by code_simp
  show ?thesis
    by (simp add: mainLegacy_def scanLegacy_def parseOptions_def save_def ownEntries_def
        stableSort_def categoryCounts_def generateSummaryLegacy_def readClock_def
        newScanner_def p1World_def j1 j2)
qed

section \<open>The verdict of the validator\<close>


text \<open>A corpus with warnings and no error passes.\<close>

lemma warnings_do_not_block:
  "r_warnings (validate untitledRuntime untitledWorld ''./apps/docs/projects'') \<noteq> [] \<and>
   success (validate untitledRuntime untitledWorld ''./apps/docs/projects'') \<and>
   mainValidator untitledRuntime untitledWorld [] = 0"
  by code_simp

section \<open>Frontmatter completeness\<close>

text \<open>
  C2 (as stated): a document whose frontmatter lacks the title gets an issue of error
  severity. This fails: for the document without a title the frontmatter pass, and the
  whole validation, end with an empty list of errors. The check looks for the text
  \<open>title:\<close> anywhere in the block, so a document whose fields are subtitle, description,
  category, tags and lastUpdated gets no issue at all.
\<close>

theorem missing_title_counterexample:
  "frontmatterBlock untitledDoc \<noteq> None \<and>
   \<not> includesStr (the (frontmatterBlock untitledDoc)) ''title:'' \<and>
   findFiles untitledRuntime ''./apps/docs/projects'' = [''apps/docs/projects/p1/readme.mdx''] \<and>
   readFile untitledWorld ''apps/docs/projects/p1/readme.mdx'' = Inr untitledDoc \<and>
   errors (validateFrontmatter untitledRuntime untitledWorld ''./apps/docs/projects'' newValidator)
     = [] \<and>
   r_errors (validate untitledRuntime untitledWorld ''./apps/docs/projects'') = [] \<and>
   map (takeWhile (\<lambda>c. c \<noteq> CHR '':'')) (splitChar LF (the (frontmatterBlock subtitledDoc)))
     = [''subtitle'', ''description'', ''category'', ''tags'', ''lastUpdated''] \<and>
   checkFrontmatter subtitledDoc ''apps/docs/projects/p1/readme.mdx'' = []"
  by code_simp

text \<open>
  C2 (amended): for a readable document in whose frontmatter block the text of a field
  name followed by a colon (\<open>title:\<close>, \<open>description:\<close>, \<open>category:\<close>, \<open>tags:\<close>,
  \<open>lastUpdated:\<close>) occurs nowhere, the frontmatter pass adds a warning that names the
  field, worded \<open>required\<close> for title and description and \<open>recommended\<close> for category,
  tags and lastUpdated, and adds no error.
\<close>

theorem missing_field_is_warning:
  assumes rd: "readFile w file = Inr content"
      and fm: "frontmatterBlock content = Some frontmatter"
      and fl: "field \<in> {''title'', ''description'', ''category'', ''tags'', ''lastUpdated''}"
      and ms: "\<not> includesStr frontmatter (field @ '':'')"
  shows "errors (validateFrontmatterFile w file v) = errors v \<and>
         (file @ '' - Missing ''
            @ (if field \<in> {''title'', ''description''} then ''required'' else ''recommended'')
            @ '' frontmatter field: '' @ field)
           \<in> set (warnings (validateFrontmatterFile w file v))"
proof -
  have e: "errors (validateFrontmatterFile w file v) = errors v"
    by (simp add: validateFrontmatterFile_def rd)
  have ws: "warnings (validateFrontmatterFile w file v) = warnings v @ checkFrontmatter content file"
    by (simp add: validateFrontmatterFile_def rd)
  from fl consider "field = ''title''" | "field = ''description''" | "field = ''category''"
    | "field = ''tags''" | "field = ''lastUpdated''" by blast
  then have "(file @ '' - Missing ''
            @ (if field \<in> {''title'', ''description''} then ''required'' else ''recommended'')
            @ '' frontmatter field: '' @ field) \<in> set (checkFrontmatter content file)"
  proof cases
    case 1
    with ms show ?thesis by (simp add: checkFrontmatter_def fm)
  next
    case 2
    with ms show ?thesis by (simp add: checkFrontmatter_def fm)
  next
    case 3
    with ms show ?thesis by (simp add: checkFrontmatter_def fm)
  next
    case 4
    with ms show ?thesis by (simp add: checkFrontmatter_def fm)
  next
    case 5
    with ms show ?thesis by (simp add: checkFrontmatter_def fm)
  qed
  with e ws show ?thesis by simp
qed

theorem missing_field_is_warning_witness:
  "readFile untitledWorld ''apps/docs/projects/p1/readme.mdx'' = Inr untitledDoc \<and>
   frontmatterBlock untitledDoc \<noteq> None \<and>
   \<not> includesStr (the (frontmatterBlock untitledDoc)) (''title'' @ '':'') \<and>
   errors (validateFrontmatterFile untitledWorld ''apps/docs/projects/p1/readme.mdx'' newValidator)
     = [] \<and>
   ''apps/docs/projects/p1/readme.mdx - Missing required frontmatter field: title''
     \<in> set (warnings (validateFrontmatterFile untitledWorld ''apps/docs/projects/p1/readme.mdx''
                        newValidator))"
proof -
  let ?f = "''apps/docs/projects/p1/readme.mdx''"
  have h1: "readFile untitledWorld ?f = Inr untitledDoc"
    by code_simp
  obtain fm where h2: "frontmatterBlock untitledDoc = Some fm"
    and h4: "\<not> includesStr fm (''title'' @ '':'')"
  proof -
    have "frontmatterBlock untitledDoc \<noteq> None \<and>
          \<not> includesStr (the (frontmatterBlock untitledDoc)) (''title'' @ '':'')"
      by code_simp
    then show ?thesis using that by auto
  qed
  have h3: "''title'' \<in> {''title'', ''description'', ''category'', ''tags'', ''lastUpdated''}"
    by simp
  from missing_field_is_warning [OF h1 h2 h3 h4, of newValidator] h1 h2 h4
  show ?thesis by (simp add: newValidator_def)
qed

end
